theory Spec2Isabelle
  imports Complex_Main
begin

section \<open>Image viewer and marker page: data model\<close>

text \<open>
  The development embeds the interactive engine of the image-marker demo:
  the component \<^verbatim>\<open>ImageViewer\<close> (viewport, transient selection, gesture
  handlers), the page \<^verbatim>\<open>ImageMarkerPage\<close> (marker collection, canonical
  selection, focused marker) and the submit path of \<^verbatim>\<open>ImageMarkerForm\<close>.

  Conventions of the embedding:
  \<^item> a JavaScript \<^verbatim>\<open>number\<close> that holds a coordinate or a scale is a
    \<^typ>\<open>real\<close>: arithmetic is exact, there is no rounding, no NaN and no
    infinity. Division is only used with a non-zero scale in the theorems.
  \<^item> a React state variable is a field of a record; a handler is a function
    from the state of the render it closes over to the next state;
  \<^item> a call of a callback prop is a value of type \<open>effect\<close>; a handler returns
    the list of the calls it makes, in order;
  \<^item> \<^verbatim>\<open>e.target.stopDrag()\<close> is the effect \<open>StopDrag\<close>, followed by what
    the host does on it: Konva ends the drag at once and fires \<open>dragend\<close> on the
    node before \<open>stopDrag\<close> returns, so the handler of \<open>dragend\<close> runs inside
    the handler of \<open>dragstart\<close>, and its calls follow \<open>StopDrag\<close> in the list;
  \<^item> an optional callback prop is a flag of the record \<open>props\<close> that says
    whether the prop was supplied;
  \<^item> cursor styling, stroke and opacity changes, \<^verbatim>\<open>cancelBubble\<close>,
    \<^verbatim>\<open>preventDefault\<close> and \<^verbatim>\<open>batchDraw\<close> touch no state of the engine and
    are left out.
\<close>

record point =
  pt_x :: real
  pt_y :: real

record selection =
  sel_x :: real
  sel_y :: real
  sel_width :: real
  sel_height :: real
  sel_visible :: bool

text \<open>\<^verbatim>\<open>Omit<Marker, "id">\<close> and \<^verbatim>\<open>Marker\<close> (ImageMarkerPage).\<close>

record markerData =
  mk_name :: string
  mk_x :: real
  mk_y :: real
  mk_width :: real
  mk_height :: real
  mk_ocrText :: "string option"

record marker = markerData +
  mk_id :: string

text \<open>\<^verbatim>\<open>Partial<Marker>\<close>: every field may be absent.\<close>

record partialMarker =
  pm_id :: "string option"
  pm_name :: "string option"
  pm_x :: "real option"
  pm_y :: "real option"
  pm_width :: "real option"
  pm_height :: "real option"
  pm_ocrText :: "string option option"

text \<open>
  The calls a handler of the viewer makes: the three callback props, with the
  optional field \<^verbatim>\<open>isNewSelection\<close> of the argument of
  \<^verbatim>\<open>onSelectionChange\<close> kept apart, and the request to the host to stop
  the drag in progress.
\<close>

datatype effect =
    OnSelectionChange selection "bool option"
  | OnMarkerSelect "string option"
  | OnMarkerMove string real real real real
  | StopDrag

text \<open>\<^verbatim>\<open>ImageViewerProps\<close>; a callback is present or not.\<close>

record props =
  p_selection :: "selection option"
  p_onSelectionChange :: bool
  p_markers :: "marker list"
  p_selectedMarkerId :: "string option"
  p_onMarkerSelect :: bool
  p_onMarkerMove :: bool

text \<open>
  The state of \<^verbatim>\<open>ImageViewer\<close>. \<open>v_image\<close> says whether an image is
  loaded (\<^verbatim>\<open>image !== null\<close>); \<open>v_position\<close> is the viewport origin.
  The sizes of the image and of the stage (\<^verbatim>\<open>imageSize\<close>, \<^verbatim>\<open>stageSize\<close>)
  are only passed on to the rendered elements and are left out.
\<close>

record viewer =
  v_image :: bool
  v_scale :: real
  v_position :: point
  v_imageSelection :: selection
  v_isDrawing :: bool
  v_startPoint :: point
  v_isDragging :: bool
  v_spacePressed :: bool

text \<open>The initial values of the \<^verbatim>\<open>useState\<close> calls.\<close>

definition initialViewer :: viewer where
  "initialViewer =
     \<lparr>v_image = False, v_scale = 1, v_position = \<lparr>pt_x = 0, pt_y = 0\<rparr>,
      v_imageSelection =
        \<lparr>sel_x = 0, sel_y = 0, sel_width = 0, sel_height = 0, sel_visible = False\<rparr>,
      v_isDrawing = False, v_startPoint = \<lparr>pt_x = 0, pt_y = 0\<rparr>,
      v_isDragging = False, v_spacePressed = False\<rparr>"

text \<open>
  The Stage, and with it the Transformer, is rendered exactly when an image is
  loaded (\<^verbatim>\<open>{image && <Stage ref={stageRef} ...>}\<close>), so the two refs are
  set exactly then.
\<close>

definition stageRef :: "viewer \<Rightarrow> bool" where
  "stageRef v = v_image v"

definition transformerRef :: "viewer \<Rightarrow> bool" where
  "transformerRef v = v_image v"

subsection \<open>Events\<close>

text \<open>
  What the handlers read of a Konva mouse event: the class name of the target,
  whether \<^verbatim>\<open>e.target.getStage()\<close> is there, the button and the Alt key, the
  result of \<^verbatim>\<open>stage.getRelativePointerPosition()\<close> and the movement.
\<close>

record mouseEvent =
  me_targetClassName :: string
  me_stage :: bool
  me_button :: int
  me_altKey :: bool
  me_pointerPos :: "point option"
  me_movementX :: real
  me_movementY :: real

record wheelEvent =
  we_ctrlKey :: bool
  we_deltaY :: real

record keyEvent =
  ke_key :: string
  ke_code :: string

text \<open>A Konva rectangle node as the drag and transform handlers read it.\<close>

record rectNode =
  nd_x :: real
  nd_y :: real
  nd_width :: real
  nd_height :: real
  nd_scaleX :: real
  nd_scaleY :: real

record dragEvent =
  de_ctrlKey :: bool
  de_target :: rectNode

text \<open>The box the Transformer hands to \<^verbatim>\<open>boundBoxFunc\<close>.\<close>

record box =
  bx_x :: real
  bx_y :: real
  bx_width :: real
  bx_height :: real
  bx_rotation :: real

record transformerProps =
  rotateEnabled :: bool
  keepRatio :: bool

section \<open>ImageViewer\<close>

subsection \<open>Coordinates\<close>

definition stageToImageCoords :: "viewer \<Rightarrow> real \<Rightarrow> real \<Rightarrow> point" where
  "stageToImageCoords v stageX stageY =
     \<lparr>pt_x = (stageX - pt_x (v_position v)) / v_scale v,
      pt_y = (stageY - pt_y (v_position v)) / v_scale v\<rparr>"

text \<open>
  The attributes the render gives the rectangle of the selection and the
  rectangle of a marker (the \<^verbatim>\<open>x\<close>, \<^verbatim>\<open>y\<close>, \<^verbatim>\<open>width\<close>, \<^verbatim>\<open>height\<close>
  props of the two \<^verbatim>\<open><Rect>\<close> elements); the node scale is Konva's default 1.
\<close>

definition selectionRect :: "viewer \<Rightarrow> rectNode" where
  "selectionRect v =
     \<lparr>nd_x = pt_x (v_position v) + sel_x (v_imageSelection v) * v_scale v,
      nd_y = pt_y (v_position v) + sel_y (v_imageSelection v) * v_scale v,
      nd_width = sel_width (v_imageSelection v) * v_scale v,
      nd_height = sel_height (v_imageSelection v) * v_scale v,
      nd_scaleX = 1, nd_scaleY = 1\<rparr>"

definition markerRect :: "viewer \<Rightarrow> marker \<Rightarrow> rectNode" where
  "markerRect v m =
     \<lparr>nd_x = pt_x (v_position v) + mk_x m * v_scale v,
      nd_y = pt_y (v_position v) + mk_y m * v_scale v,
      nd_width = mk_width m * v_scale v,
      nd_height = mk_height m * v_scale v,
      nd_scaleX = 1, nd_scaleY = 1\<rparr>"

subsection \<open>Synchronising the internal selection with the prop\<close>

text \<open>
  The body of the effect that depends on \<^verbatim>\<open>selectionProp\<close>. It calls no
  callback, so its list of calls is empty on every path.
\<close>

definition syncSelectionProp :: "selection option \<Rightarrow> viewer \<Rightarrow> viewer \<times> effect list" where
  "syncSelectionProp selectionProp v =
     (case selectionProp of
        Some sp \<Rightarrow>
          if sel_x sp \<noteq> sel_x (v_imageSelection v) \<or>
             sel_y sp \<noteq> sel_y (v_imageSelection v) \<or>
             sel_width sp \<noteq> sel_width (v_imageSelection v) \<or>
             sel_height sp \<noteq> sel_height (v_imageSelection v) \<or>
             sel_visible sp \<noteq> sel_visible (v_imageSelection v)
          then
            (v\<lparr>v_imageSelection :=
                 \<lparr>sel_x = sel_x sp, sel_y = sel_y sp, sel_width = sel_width sp,
                  sel_height = sel_height sp, sel_visible = sel_visible sp\<rparr>\<rparr>, [])
          else (v, [])
      | None \<Rightarrow>
          if sel_visible (v_imageSelection v)
          then (v\<lparr>v_imageSelection := (v_imageSelection v)\<lparr>sel_visible := False\<rparr>\<rparr>, [])
          else (v, []))"

subsection \<open>Zoom\<close>

definition handleWheel :: "viewer \<Rightarrow> wheelEvent \<Rightarrow> viewer" where
  "handleWheel v e =
     (if \<not> we_ctrlKey e then v
      else if \<not> stageRef v \<or> \<not> v_image v then v
      else
        let oldScale = v_scale v;
            newScale = (if we_deltaY e < 0 then oldScale * 1.1 else oldScale / 1.1);
            boundedScale = max 0.1 (min 5 newScale)
        in v\<lparr>v_scale := boundedScale\<rparr>)"

subsection \<open>Transformer\<close>

definition boundBoxFunc :: "viewer \<Rightarrow> box \<Rightarrow> box \<Rightarrow> box" where
  "boundBoxFunc v oldBox newBox =
     (let minSize = 5 * v_scale v
      in if bx_width newBox < minSize \<or> bx_height newBox < minSize then oldBox
         else newBox)"

definition transformer :: transformerProps where
  "transformer = \<lparr>rotateEnabled = False, keepRatio = False\<rparr>"

subsection \<open>Loading an image\<close>

text \<open>
  The \<^verbatim>\<open>img.onload\<close> callback of \<^verbatim>\<open>handleImageUpload\<close>: the image is
  stored, centred in the container when the container is mounted, and the zoom
  is reset. The event carries the size of the image and the client size of the
  container, if any.
\<close>

record imageLoad =
  il_width :: real
  il_height :: real
  il_container :: "(real \<times> real) option"

definition handleImageUpload :: "viewer \<Rightarrow> imageLoad \<Rightarrow> viewer" where
  "handleImageUpload v img =
     (let v1 = v\<lparr>v_image := True\<rparr>;
          v2 = (case il_container img of
                  Some (containerWidth, containerHeight) \<Rightarrow>
                    v1\<lparr>v_position :=
                         \<lparr>pt_x = (containerWidth - il_width img) / 2,
                          pt_y = (containerHeight - il_height img) / 2\<rparr>\<rparr>
                | None \<Rightarrow> v1)
      in v2\<lparr>v_scale := 1\<rparr>)"

subsection \<open>Mouse handlers of the stage\<close>

definition handleMouseDown :: "props \<Rightarrow> viewer \<Rightarrow> mouseEvent \<Rightarrow> viewer \<times> effect list" where
  "handleMouseDown pr v e =
     (if \<not> v_image v then (v, [])
      else if me_targetClassName e = ''Rect'' then (v, [])
      else if \<not> me_stage e then (v, [])
      else if v_spacePressed v \<and> me_button e = 0 then (v\<lparr>v_isDragging := True\<rparr>, [])
      else if \<not> me_altKey e \<or> me_button e \<noteq> 0 then (v, [])
      else
        (case me_pointerPos e of
           None \<Rightarrow> (v, [])
         | Some pointerPos \<Rightarrow>
             let imageCoords = stageToImageCoords v (pt_x pointerPos) (pt_y pointerPos);
                 newSelection =
                   \<lparr>sel_x = pt_x imageCoords, sel_y = pt_y imageCoords,
                    sel_width = 0, sel_height = 0, sel_visible = True\<rparr>
             in (v\<lparr>v_isDrawing := True, v_startPoint := imageCoords,
                    v_imageSelection := newSelection\<rparr>,
                 if p_onSelectionChange pr
                 then [OnSelectionChange newSelection (Some True)] else [])))"

definition handleMouseMove :: "props \<Rightarrow> viewer \<Rightarrow> mouseEvent \<Rightarrow> viewer \<times> effect list" where
  "handleMouseMove pr v e =
     (if \<not> me_stage e then (v, [])
      else if me_targetClassName e = ''Rect'' then (v, [])
      else if v_isDragging v \<and> v_image v then
        (let dx = me_movementX e; dy = me_movementY e
         in (v\<lparr>v_position :=
                  \<lparr>pt_x = pt_x (v_position v) + dx, pt_y = pt_y (v_position v) + dy\<rparr>\<rparr>, []))
      else if \<not> v_isDrawing v \<or> \<not> v_image v \<or> \<not> me_altKey e then (v, [])
      else
        (case me_pointerPos e of
           None \<Rightarrow> (v, [])
         | Some pointerPos \<Rightarrow>
             let imageCoords = stageToImageCoords v (pt_x pointerPos) (pt_y pointerPos);
                 newSelection =
                   \<lparr>sel_x = min (pt_x (v_startPoint v)) (pt_x imageCoords),
                    sel_y = min (pt_y (v_startPoint v)) (pt_y imageCoords),
                    sel_width = \<bar>pt_x imageCoords - pt_x (v_startPoint v)\<bar>,
                    sel_height = \<bar>pt_y imageCoords - pt_y (v_startPoint v)\<bar>,
                    sel_visible = True\<rparr>
             in (v\<lparr>v_imageSelection := newSelection\<rparr>,
                 if p_onSelectionChange pr
                 then [OnSelectionChange newSelection (Some True)] else [])))"

definition handleMouseUp :: "viewer \<Rightarrow> mouseEvent \<Rightarrow> viewer" where
  "handleMouseUp v e =
     (if me_targetClassName e = ''Rect'' then v
      else if v_isDragging v then v\<lparr>v_isDragging := False\<rparr>
      else if \<not> v_isDrawing v \<or> \<not> v_image v then v
      else v\<lparr>v_isDrawing := False\<rparr>)"

subsection \<open>Markers: click and drag\<close>

definition handleMarkerClick :: "props \<Rightarrow> viewer \<Rightarrow> string \<Rightarrow> viewer \<times> effect list" where
  "handleMarkerClick pr v ident =
     (let newSelection =
            \<lparr>sel_x = 0, sel_y = 0, sel_width = 0, sel_height = 0, sel_visible = False\<rparr>
      in (v\<lparr>v_imageSelection := newSelection\<rparr>,
          (if p_onSelectionChange pr then [OnSelectionChange newSelection None] else []) @
          (if p_onMarkerSelect pr
           then (if p_selectedMarkerId pr = Some ident then [OnMarkerSelect None]
                 else [OnMarkerSelect (Some ident)])
           else [])))"

definition handleMarkerDragEnd ::
  "props \<Rightarrow> viewer \<Rightarrow> dragEvent \<Rightarrow> string \<Rightarrow> viewer \<times> effect list" where
  "handleMarkerDragEnd pr v e markerId =
     (let shape = de_target e
      in if \<not> p_onMarkerMove pr then (v, [])
         else
           let x = (nd_x shape - pt_x (v_position v)) / v_scale v;
               y = (nd_y shape - pt_y (v_position v)) / v_scale v;
               width = nd_width shape / v_scale v;
               height = nd_height shape / v_scale v
           in (v, [OnMarkerMove markerId x y width height]))"

text \<open>
  Without Ctrl the handler of the drag start calls \<^verbatim>\<open>e.target.stopDrag()\<close>
  and returns. The \<open>dragend\<close> that \<open>stopDrag\<close> fires reaches
  \<^verbatim>\<open>handleMarkerDragEnd\<close> of the same marker with the same node as target,
  as the event of the drag start carries it: the drag has not moved it yet.
  The handlers of \<open>dragend\<close> read nothing else of their event.
\<close>

definition handleMarkerDragStart ::
  "props \<Rightarrow> viewer \<Rightarrow> dragEvent \<Rightarrow> string \<Rightarrow> viewer \<times> effect list" where
  "handleMarkerDragStart pr v e markerId =
     (if \<not> de_ctrlKey e then
        (let (v1, calls) = handleMarkerDragEnd pr v e markerId
         in (v1, StopDrag # calls))
      else (v, if p_onMarkerSelect pr \<and> p_selectedMarkerId pr \<noteq> Some markerId
               then [OnMarkerSelect (Some markerId)] else []))"

subsection \<open>The selection rectangle: drag\<close>

definition handleSelectionDragEnd :: "props \<Rightarrow> viewer \<Rightarrow> dragEvent \<Rightarrow> viewer \<times> effect list" where
  "handleSelectionDragEnd pr v e =
     (let shape = de_target e;
          x = (nd_x shape - pt_x (v_position v)) / v_scale v;
          y = (nd_y shape - pt_y (v_position v)) / v_scale v;
          moved =
            \<lparr>sel_x = x, sel_y = y, sel_width = sel_width (v_imageSelection v),
             sel_height = sel_height (v_imageSelection v), sel_visible = True\<rparr>
      in (v\<lparr>v_imageSelection := moved\<rparr>,
          if p_onSelectionChange pr then [OnSelectionChange moved None] else []))"

text \<open>
  As for a marker: without Ctrl, \<^verbatim>\<open>stopDrag\<close> makes
  \<^verbatim>\<open>handleSelectionDragEnd\<close> run on the node of the drag start.
\<close>

definition handleSelectionDragStart :: "props \<Rightarrow> viewer \<Rightarrow> dragEvent \<Rightarrow> viewer \<times> effect list" where
  "handleSelectionDragStart pr v e =
     (if \<not> de_ctrlKey e then
        (let (v1, calls) = handleSelectionDragEnd pr v e
         in (v1, StopDrag # calls))
      else (v, []))"

subsection \<open>Keyboard\<close>

definition handleKeyDown :: "viewer \<Rightarrow> keyEvent \<Rightarrow> viewer" where
  "handleKeyDown v e =
     (if ke_key e = '' '' \<or> ke_code e = ''Space'' then v\<lparr>v_spacePressed := True\<rparr> else v)"

definition handleKeyUp :: "viewer \<Rightarrow> keyEvent \<Rightarrow> viewer" where
  "handleKeyUp v e =
     (let v1 = (if ke_key e = '' '' \<or> ke_code e = ''Space''
                then (if v_isDragging v
                      then v\<lparr>v_spacePressed := False, v_isDragging := False\<rparr>
                      else v\<lparr>v_spacePressed := False\<rparr>)
                else v)
      in if (ke_key e = ''Alt'' \<or> ke_code e = ''AltLeft'' \<or> ke_code e = ''AltRight'') \<and>
            v_isDrawing v
         then v1\<lparr>v_isDrawing := False\<rparr> else v1)"

subsection \<open>End of a resize\<close>

text \<open>
  The handlers read the node's position, size and scale factors; resetting the
  node's scale to 1 is a change of the host's node only.
\<close>

definition handleMarkerTransformEnd ::
  "props \<Rightarrow> viewer \<Rightarrow> rectNode \<Rightarrow> string \<Rightarrow> viewer \<times> effect list" where
  "handleMarkerTransformEnd pr v node markerId =
     (if \<not> p_onMarkerMove pr \<or> \<not> transformerRef v then (v, [])
      else
        let scaleX = nd_scaleX node; scaleY = nd_scaleY node;
            x = (nd_x node - pt_x (v_position v)) / v_scale v;
            y = (nd_y node - pt_y (v_position v)) / v_scale v;
            width = (nd_width node * scaleX) / v_scale v;
            height = (nd_height node * scaleY) / v_scale v
        in (v, [OnMarkerMove markerId x y width height]))"

definition handleSelectionTransformEnd ::
  "props \<Rightarrow> viewer \<Rightarrow> rectNode \<Rightarrow> viewer \<times> effect list" where
  "handleSelectionTransformEnd pr v node =
     (if \<not> p_onSelectionChange pr \<or> \<not> transformerRef v then (v, [])
      else
        let scaleX = nd_scaleX node; scaleY = nd_scaleY node;
            x = (nd_x node - pt_x (v_position v)) / v_scale v;
            y = (nd_y node - pt_y (v_position v)) / v_scale v;
            width = (nd_width node * scaleX) / v_scale v;
            height = (nd_height node * scaleY) / v_scale v;
            newSelection =
              \<lparr>sel_x = x, sel_y = y, sel_width = width, sel_height = height,
               sel_visible = True\<rparr>
        in (v\<lparr>v_imageSelection := newSelection\<rparr>, [OnSelectionChange newSelection None]))"

section \<open>ImageMarkerPage\<close>

text \<open>
  The three state variables of the page. The selection object stored by
  \<^verbatim>\<open>setSelection\<close> may carry the extra field \<^verbatim>\<open>isNewSelection\<close>; nothing
  reads it from the stored object, so the stored value is the five fields.
\<close>

record page =
  pg_markers :: "marker list"
  pg_selection :: selection
  pg_selectedMarkerId :: "string option"

definition initialPage :: page where
  "initialPage =
     \<lparr>pg_markers = [],
      pg_selection =
        \<lparr>sel_x = 0, sel_y = 0, sel_width = 0, sel_height = 0, sel_visible = False\<rparr>,
      pg_selectedMarkerId = None\<rparr>"

definition setSelectedMarkerId :: "page \<Rightarrow> string option \<Rightarrow> page" where
  "setSelectedMarkerId pg ident = pg\<lparr>pg_selectedMarkerId := ident\<rparr>"

text \<open>
  \<^verbatim>\<open>selection.visible && selection.isNewSelection\<close>: an absent flag is falsy.
\<close>

definition handleSelectionChange :: "page \<Rightarrow> selection \<Rightarrow> bool option \<Rightarrow> page" where
  "handleSelectionChange pg sel isNewSelection =
     (let pg1 = pg\<lparr>pg_selection := sel\<rparr>
      in if sel_visible sel \<and> isNewSelection = Some True
         then pg1\<lparr>pg_selectedMarkerId := None\<rparr> else pg1)"

subsection \<open>Identifiers\<close>

text \<open>
  The template literal \<^verbatim>\<open>`marker-${Date.now()}`\<close> prints the clock reading, an
  integer number of milliseconds, in decimal (JavaScript prints an integer
  below \<open>10\<^sup>2\<^sup>1\<close> in magnitude with all its digits). The clock reading is
  an argument of the model.
\<close>

definition digitChar :: "nat \<Rightarrow> char" where
  "digitChar d = ''0123456789'' ! (d mod 10)"

function digits :: "nat \<Rightarrow> string" where
  "digits n = (if n < 10 then [digitChar n] else digits (n div 10) @ [digitChar (n mod 10)])"
  by pat_completeness auto
termination
  by (relation "measure (\<lambda>n. n)") auto

declare digits.simps [simp del]

definition numberToString :: "int \<Rightarrow> string" where
  "numberToString i = (if i < 0 then CHR ''-'' # digits (nat (- i)) else digits (nat i))"

subsection \<open>The marker collection\<close>

definition handleAddMarker :: "int \<Rightarrow> page \<Rightarrow> markerData \<Rightarrow> page \<times> string" where
  "handleAddMarker now pg m =
     (let newMarker =
            \<lparr>mk_name = mk_name m, mk_x = mk_x m, mk_y = mk_y m, mk_width = mk_width m,
             mk_height = mk_height m, mk_ocrText = mk_ocrText m,
             mk_id = ''marker-'' @ numberToString now\<rparr>
      in (pg\<lparr>pg_markers := pg_markers pg @ [newMarker]\<rparr>, mk_id newMarker))"

text \<open>\<^verbatim>\<open>{ ...marker, ...markerData }\<close>: a field that is present overrides.\<close>

definition mergeMarker :: "marker \<Rightarrow> partialMarker \<Rightarrow> marker" where
  "mergeMarker m d =
     \<lparr>mk_name = (case pm_name d of Some n \<Rightarrow> n | None \<Rightarrow> mk_name m),
      mk_x = (case pm_x d of Some r \<Rightarrow> r | None \<Rightarrow> mk_x m),
      mk_y = (case pm_y d of Some r \<Rightarrow> r | None \<Rightarrow> mk_y m),
      mk_width = (case pm_width d of Some r \<Rightarrow> r | None \<Rightarrow> mk_width m),
      mk_height = (case pm_height d of Some r \<Rightarrow> r | None \<Rightarrow> mk_height m),
      mk_ocrText = (case pm_ocrText d of Some t \<Rightarrow> t | None \<Rightarrow> mk_ocrText m),
      mk_id = (case pm_id d of Some i \<Rightarrow> i | None \<Rightarrow> mk_id m)\<rparr>"

definition handleUpdateMarker :: "page \<Rightarrow> string \<Rightarrow> partialMarker \<Rightarrow> page" where
  "handleUpdateMarker pg ident markerData =
     pg\<lparr>pg_markers :=
          map (\<lambda>m. if mk_id m = ident then mergeMarker m markerData else m) (pg_markers pg)\<rparr>"

definition handleMarkerMove :: "page \<Rightarrow> string \<Rightarrow> real \<Rightarrow> real \<Rightarrow> real \<Rightarrow> real \<Rightarrow> page" where
  "handleMarkerMove pg ident x y width height =
     handleUpdateMarker pg ident
       \<lparr>pm_id = None, pm_name = None, pm_x = Some x, pm_y = Some y,
        pm_width = Some width, pm_height = Some height, pm_ocrText = None\<rparr>"

definition handleDeleteMarker :: "page \<Rightarrow> string \<Rightarrow> page" where
  "handleDeleteMarker pg ident =
     (let pg1 = pg\<lparr>pg_markers := filter (\<lambda>m. mk_id m \<noteq> ident) (pg_markers pg)\<rparr>
      in if pg_selectedMarkerId pg = Some ident
         then pg1\<lparr>pg_selectedMarkerId := None\<rparr> else pg1)"

text \<open>A sequence of calls of \<^verbatim>\<open>handleAddMarker\<close>, with the identifiers returned.\<close>

fun addMarkers :: "page \<Rightarrow> (int \<times> markerData) list \<Rightarrow> page \<times> string list" where
  "addMarkers pg [] = (pg, [])"
| "addMarkers pg ((now, m) # calls) =
     (let (pg1, ident) = handleAddMarker now pg m;
          (pg2, idents) = addMarkers pg1 calls
      in (pg2, ident # idents))"

section \<open>ImageMarkerForm: saving\<close>

record formValues =
  fv_name :: string
  fv_selectionX :: real
  fv_selectionY :: real
  fv_selectionWidth :: real
  fv_selectionHeight :: real
  fv_ocrTextDisplay :: "string option"

text \<open>The zod schema: a name of at least one character, numbers at least 0.\<close>

definition formSchema :: "formValues \<Rightarrow> bool" where
  "formSchema d \<longleftrightarrow>
     1 \<le> length (fv_name d) \<and> 0 \<le> fv_selectionX d \<and> 0 \<le> fv_selectionY d \<and>
     0 \<le> fv_selectionWidth d \<and> 0 \<le> fv_selectionHeight d"

text \<open>A string or null used as a condition: null and the empty string are falsy.\<close>

definition truthy :: "string option \<Rightarrow> bool" where
  "truthy s = (case s of None \<Rightarrow> False | Some t \<Rightarrow> t \<noteq> [])"

text \<open>
  \<^verbatim>\<open>onSubmit\<close> of the form, with the page's handlers as its callback props as
  the page passes them; the clock reading is the one \<^verbatim>\<open>handleAddMarker\<close>
  takes.
\<close>

definition onSubmit :: "int \<Rightarrow> page \<Rightarrow> formValues \<Rightarrow> page" where
  "onSubmit now pg d =
     (let saved =
        (if truthy (pg_selectedMarkerId pg) then
           (case pg_selectedMarkerId pg of
              Some selectedMarkerId \<Rightarrow>
                setSelectedMarkerId
                  (handleUpdateMarker pg selectedMarkerId
                     \<lparr>pm_id = None, pm_name = Some (fv_name d),
                      pm_x = Some (fv_selectionX d), pm_y = Some (fv_selectionY d),
                      pm_width = Some (fv_selectionWidth d),
                      pm_height = Some (fv_selectionHeight d),
                      pm_ocrText = Some (fv_ocrTextDisplay d)\<rparr>)
                  (Some selectedMarkerId)
            | None \<Rightarrow> pg)
         else if sel_visible (pg_selection pg) then
           (let (pg1, newMarkerId) =
                  handleAddMarker now pg
                    \<lparr>mk_name = fv_name d, mk_x = fv_selectionX d, mk_y = fv_selectionY d,
                     mk_width = fv_selectionWidth d, mk_height = fv_selectionHeight d,
                     mk_ocrText = fv_ocrTextDisplay d\<rparr>
            in setSelectedMarkerId pg1 (Some newMarkerId))
         else pg)
      in handleSelectionChange saved
           \<lparr>sel_x = 0, sel_y = 0, sel_width = 0, sel_height = 0, sel_visible = False\<rparr> None)"

text \<open>\<^verbatim>\<open>handleSubmit(onSubmit)\<close>: the callback runs when the values pass the schema.\<close>

definition handleSubmit :: "int \<Rightarrow> page \<Rightarrow> formValues \<Rightarrow> page" where
  "handleSubmit now pg d = (if formSchema d then onSubmit now pg d else pg)"

section \<open>The page with its viewer and form\<close>

text \<open>
  The page renders the viewer with its own state as props and its own handlers
  as callbacks (\<^verbatim>\<open>onMarkerSelect={setSelectedMarkerId}\<close>), so every callback
  is supplied.
\<close>

record system =
  sys_viewer :: viewer
  sys_page :: page

definition initialSystem :: system where
  "initialSystem = \<lparr>sys_viewer = initialViewer, sys_page = initialPage\<rparr>"

definition pageProps :: "page \<Rightarrow> props" where
  "pageProps pg =
     \<lparr>p_selection = Some (pg_selection pg), p_onSelectionChange = True,
      p_markers = pg_markers pg, p_selectedMarkerId = pg_selectedMarkerId pg,
      p_onMarkerSelect = True, p_onMarkerMove = True\<rparr>"

text \<open>What the page does on a call of one of the callbacks it passed down.\<close>

fun applyEffect :: "page \<Rightarrow> effect \<Rightarrow> page" where
  "applyEffect pg (OnSelectionChange sel isNewSelection) =
     handleSelectionChange pg sel isNewSelection"
| "applyEffect pg (OnMarkerSelect ident) = setSelectedMarkerId pg ident"
| "applyEffect pg (OnMarkerMove ident x y width height) =
     handleMarkerMove pg ident x y width height"
| "applyEffect pg StopDrag = pg"

definition applyEffects :: "page \<Rightarrow> effect list \<Rightarrow> page" where
  "applyEffects pg effs = foldl applyEffect pg effs"

fun isSelectionChange :: "effect \<Rightarrow> bool" where
  "isSelectionChange (OnSelectionChange sel isNewSelection) = True"
| "isSelectionChange eff = False"

datatype event =
    ImageLoaded imageLoad
  | MouseDown mouseEvent
  | MouseMove mouseEvent
  | MouseUp mouseEvent
  | Wheel wheelEvent
  | KeyDown keyEvent
  | KeyUp keyEvent
  | MarkerClick string
  | MarkerDragStart dragEvent string
  | MarkerDragEnd dragEvent string
  | SelectionDragStart dragEvent
  | SelectionDragEnd dragEvent
  | MarkerTransformEnd rectNode string
  | SelectionTransformEnd rectNode
  | FormSubmit int formValues
  | FormSelectMarker string
  | FormDeleteMarker

text \<open>
  An event can only come from an element that is rendered: the stage exists
  when an image is loaded, the rectangle of a marker when the marker is in the
  collection, the rectangle of the selection when the internal selection is
  visible, the form when \<^verbatim>\<open>hasValidSelection\<close> holds, the delete button when
  a marker is selected.
\<close>

definition markerRendered :: "system \<Rightarrow> string \<Rightarrow> bool" where
  "markerRendered s ident \<longleftrightarrow>
     v_image (sys_viewer s) \<and> ident \<in> set (map mk_id (pg_markers (sys_page s)))"

definition selectionRendered :: "system \<Rightarrow> bool" where
  "selectionRendered s \<longleftrightarrow>
     v_image (sys_viewer s) \<and> sel_visible (v_imageSelection (sys_viewer s))"

definition hasValidSelection :: "page \<Rightarrow> bool" where
  "hasValidSelection pg \<longleftrightarrow> sel_visible (pg_selection pg) \<or> pg_selectedMarkerId pg \<noteq> None"

fun rendered :: "system \<Rightarrow> event \<Rightarrow> bool" where
  "rendered s (ImageLoaded img) = True"
| "rendered s (MouseDown e) = v_image (sys_viewer s)"
| "rendered s (MouseMove e) = v_image (sys_viewer s)"
| "rendered s (MouseUp e) = v_image (sys_viewer s)"
| "rendered s (Wheel e) = v_image (sys_viewer s)"
| "rendered s (KeyDown e) = True"
| "rendered s (KeyUp e) = True"
| "rendered s (MarkerClick ident) = markerRendered s ident"
| "rendered s (MarkerDragStart e ident) = markerRendered s ident"
| "rendered s (MarkerDragEnd e ident) = markerRendered s ident"
| "rendered s (SelectionDragStart e) = selectionRendered s"
| "rendered s (SelectionDragEnd e) = selectionRendered s"
| "rendered s (MarkerTransformEnd node ident) = markerRendered s ident"
| "rendered s (SelectionTransformEnd node) = selectionRendered s"
| "rendered s (FormSubmit now d) = hasValidSelection (sys_page s)"
| "rendered s (FormSelectMarker ident) = (ident \<in> set (map mk_id (pg_markers (sys_page s))))"
| "rendered s (FormDeleteMarker) =
     (hasValidSelection (sys_page s) \<and> truthy (pg_selectedMarkerId (sys_page s)))"

text \<open>
  The handler of an event: the next state of the viewer and the calls made.
\<close>

fun viewerHandler :: "props \<Rightarrow> viewer \<Rightarrow> event \<Rightarrow> viewer \<times> effect list" where
  "viewerHandler pr v (ImageLoaded img) = (handleImageUpload v img, [])"
| "viewerHandler pr v (MouseDown e) = handleMouseDown pr v e"
| "viewerHandler pr v (MouseMove e) = handleMouseMove pr v e"
| "viewerHandler pr v (MouseUp e) = (handleMouseUp v e, [])"
| "viewerHandler pr v (Wheel e) = (handleWheel v e, [])"
| "viewerHandler pr v (KeyDown e) = (handleKeyDown v e, [])"
| "viewerHandler pr v (KeyUp e) = (handleKeyUp v e, [])"
| "viewerHandler pr v (MarkerClick ident) = handleMarkerClick pr v ident"
| "viewerHandler pr v (MarkerDragStart e ident) = handleMarkerDragStart pr v e ident"
| "viewerHandler pr v (MarkerDragEnd e ident) = handleMarkerDragEnd pr v e ident"
| "viewerHandler pr v (SelectionDragStart e) = handleSelectionDragStart pr v e"
| "viewerHandler pr v (SelectionDragEnd e) = handleSelectionDragEnd pr v e"
| "viewerHandler pr v (MarkerTransformEnd node ident) = handleMarkerTransformEnd pr v node ident"
| "viewerHandler pr v (SelectionTransformEnd node) = handleSelectionTransformEnd pr v node"
| "viewerHandler pr v (FormSubmit now d) = (v, [])"
| "viewerHandler pr v (FormSelectMarker ident) = (v, [])"
| "viewerHandler pr v (FormDeleteMarker) = (v, [])"

text \<open>What the form does to the page on an event of its own.\<close>

fun formHandler :: "page \<Rightarrow> event \<Rightarrow> page" where
  "formHandler pg (FormSubmit now d) = handleSubmit now pg d"
| "formHandler pg (FormSelectMarker ident) = setSelectedMarkerId pg (Some ident)"
| "formHandler pg (FormDeleteMarker) =
     (case pg_selectedMarkerId pg of
        Some ident \<Rightarrow> if ident \<noteq> [] then handleDeleteMarker pg ident else pg
      | None \<Rightarrow> pg)"
| "formHandler pg ev = pg"

text \<open>Whether the event made the page store a new selection object.\<close>

fun selectionStored :: "effect list \<Rightarrow> event \<Rightarrow> page \<Rightarrow> bool" where
  "selectionStored effs (FormSubmit now d) pg = formSchema d"
| "selectionStored effs ev pg = (\<exists>eff \<in> set effs. isSelectionChange eff)"

text \<open>
  One event: the handler of the viewer runs on the state and props of the
  current render, the page processes the calls in order, the form's handler
  runs, and on the next render the effect on \<^verbatim>\<open>selectionProp\<close> runs if the
  page stored a new selection object.
\<close>

definition step :: "system \<Rightarrow> event \<Rightarrow> system" where
  "step s ev =
     (if \<not> rendered s ev then s
      else
        let (v1, effs) = viewerHandler (pageProps (sys_page s)) (sys_viewer s) ev;
            pg1 = formHandler (applyEffects (sys_page s) effs) ev;
            v2 = (if selectionStored effs ev (sys_page s)
                  then fst (syncSelectionProp (Some (pg_selection pg1)) v1) else v1)
        in \<lparr>sys_viewer = v2, sys_page = pg1\<rparr>)"

definition run :: "system \<Rightarrow> event list \<Rightarrow> system" where
  "run s evs = foldl step s evs"

text \<open>The state the invariant of the focus excludes.\<close>

definition selectionAndMarkerFocused :: "system \<Rightarrow> bool" where
  "selectionAndMarkerFocused s \<longleftrightarrow>
     (sel_visible (pg_selection (sys_page s)) \<or> sel_visible (v_imageSelection (sys_viewer s))) \<and>
     pg_selectedMarkerId (sys_page s) \<noteq> None"

section \<open>Example inputs\<close>

text \<open>
  Concrete events and traces, used to run the handlers: an image of the size
  of its container (so that the origin is \<open>(0, 0)\<close> at scale 1), pointer
  events on the background image and on a rectangle, a wheel event that zooms
  in, and the values of a valid form.
\<close>

definition exampleLoad :: imageLoad where
  "exampleLoad = \<lparr>il_width = 800, il_height = 500, il_container = Some (800, 500)\<rparr>"

definition pointerEvent :: "string \<Rightarrow> bool \<Rightarrow> real \<Rightarrow> real \<Rightarrow> mouseEvent" where
  "pointerEvent cls alt x y =
     \<lparr>me_targetClassName = cls, me_stage = True, me_button = 0, me_altKey = alt,
      me_pointerPos = Some \<lparr>pt_x = x, pt_y = y\<rparr>, me_movementX = 0, me_movementY = 0\<rparr>"

definition zoomIn :: wheelEvent where
  "zoomIn = \<lparr>we_ctrlKey = True, we_deltaY = - 100\<rparr>"

definition exampleViewer :: viewer where
  "exampleViewer = handleImageUpload initialViewer exampleLoad"

definition exampleForm :: formValues where
  "exampleForm =
     \<lparr>fv_name = ''A'', fv_selectionX = 10, fv_selectionY = 10, fv_selectionWidth = 50,
      fv_selectionHeight = 30,
      fv_ocrTextDisplay = Some ''Sample OCR text from selected area''\<rparr>"

definition exampleData :: markerData where
  "exampleData =
     \<lparr>mk_name = ''A'', mk_x = 10, mk_y = 10, mk_width = 50, mk_height = 30,
      mk_ocrText = None\<rparr>"

definition exampleMarker :: marker where
  "exampleMarker =
     \<lparr>mk_name = ''A'', mk_x = 10, mk_y = 10, mk_width = 50, mk_height = 30,
      mk_ocrText = Some ''Sample OCR text from selected area'',
      mk_id = ''marker-1700000000000''\<rparr>"

text \<open>Alt+drag on the image from \<open>(10, 10)\<close> to \<open>(60, 40)\<close>, button still down.\<close>

definition drawnSystem :: system where
  "drawnSystem = run initialSystem
     [ImageLoaded exampleLoad,
      MouseDown (pointerEvent ''Image'' True 10 10),
      MouseMove (pointerEvent ''Image'' True 60 40)]"

text \<open>The button is released and the form is saved under the name A.\<close>

definition savedSystem :: system where
  "savedSystem = run drawnSystem
     [MouseUp (pointerEvent ''Image'' True 60 40),
      FormSubmit 1700000000000 exampleForm]"

text \<open>A second selection is drawn away from the marker.\<close>

definition redrawnSystem :: system where
  "redrawnSystem = run savedSystem
     [MouseDown (pointerEvent ''Image'' True 100 100),
      MouseMove (pointerEvent ''Image'' True 140 120),
      MouseUp (pointerEvent ''Image'' True 140 120)]"

text \<open>Ctrl is held while a drag of the saved marker starts.\<close>

definition ctrlDragStart :: event where
  "ctrlDragStart = MarkerDragStart
     \<lparr>de_ctrlKey = True, de_target = markerRect (sys_viewer redrawnSystem) exampleMarker\<rparr>
     ''marker-1700000000000''"

definition focusTrace :: "event list" where
  "focusTrace =
     [ImageLoaded exampleLoad,
      MouseDown (pointerEvent ''Image'' True 10 10),
      MouseMove (pointerEvent ''Image'' True 60 40),
      MouseUp (pointerEvent ''Image'' True 60 40),
      FormSubmit 1700000000000 exampleForm,
      MouseDown (pointerEvent ''Image'' True 100 100),
      MouseMove (pointerEvent ''Image'' True 140 120),
      MouseUp (pointerEvent ''Image'' True 140 120),
      ctrlDragStart]"

text \<open>
  During the first draw the pointer comes back to \<open>(40, 30)\<close>, inside the
  rectangle of the selection drawn so far, so the target of the move is that
  rectangle.
\<close>

definition moveBackOverSelection :: mouseEvent where
  "moveBackOverSelection = pointerEvent ''Rect'' True 40 30"

text \<open>
  Space is pressed and the button goes down on the image at \<open>(70, 50)\<close>, next
  to the saved marker; the pointer then moves by \<open>(-15, -15)\<close> onto the marker.
\<close>

definition panningSystem :: system where
  "panningSystem = run savedSystem
     [KeyDown \<lparr>ke_key = '' '', ke_code = ''Space''\<rparr>,
      MouseDown (pointerEvent ''Image'' False 70 50)]"

definition panOverMarker :: mouseEvent where
  "panOverMarker =
     \<lparr>me_targetClassName = ''Rect'', me_stage = True, me_button = 0, me_altKey = False,
      me_pointerPos = Some \<lparr>pt_x = 55, pt_y = 35\<rparr>,
      me_movementX = - 15, me_movementY = - 15\<rparr>"

definition panOverImage :: mouseEvent where
  "panOverImage =
     \<lparr>me_targetClassName = ''Image'', me_stage = True, me_button = 0, me_altKey = False,
      me_pointerPos = Some \<lparr>pt_x = 90, pt_y = 60\<rparr>,
      me_movementX = 20, me_movementY = 10\<rparr>"






text \<open>The node of the second selection, dropped at \<open>(130, 90)\<close>.\<close>

definition selectionDragged :: dragEvent where
  "selectionDragged =
     \<lparr>de_ctrlKey = True,
      de_target =
        \<lparr>nd_x = 130, nd_y = 90, nd_width = 40, nd_height = 20, nd_scaleX = 1, nd_scaleY = 1\<rparr>\<rparr>"

section \<open>Properties of the viewport\<close>

subsection \<open>Zoom\<close>

lemma clamp_range: "0.1 \<le> max (0.1 :: real) (min 5 x) \<and> max 0.1 (min 5 x) \<le> 5"
  by (auto simp: min_def max_def)

lemma handleWheel_scale_range:
  assumes "0.1 \<le> v_scale v" and "v_scale v \<le> 5"
  shows "0.1 \<le> v_scale (handleWheel v e) \<and> v_scale (handleWheel v e) \<le> 5"
proof (cases "we_ctrlKey e \<and> v_image v")
  case True
  then show ?thesis
    using clamp_range by (simp add: handleWheel_def stageRef_def Let_def)
next
  case False
  then have "handleWheel v e = v"
    by (auto simp: handleWheel_def stageRef_def)
  with assms show ?thesis by simp
qed

lemma handleWheel_image: "v_image (handleWheel v e) = v_image v"
  by (simp add: handleWheel_def Let_def)

lemma foldl_handleWheel_range:
  "0.1 \<le> v_scale v \<Longrightarrow> v_scale v \<le> 5 \<Longrightarrow>
   0.1 \<le> v_scale (foldl handleWheel v es) \<and> v_scale (foldl handleWheel v es) \<le> 5"
proof (induction es arbitrary: v)
  case Nil
  then show ?case by simp
next
  case (Cons e es)
  from handleWheel_scale_range [OF Cons.prems, of e] Cons.IH [of "handleWheel v e"]
  show ?case by simp
qed

text \<open>From \<open>50/11\<close> upwards one step of zooming in reaches the upper bound.\<close>

lemma zoom_in_saturates:
  "v_image v \<Longrightarrow> we_ctrlKey e \<Longrightarrow> we_deltaY e < 0 \<Longrightarrow> 50 / 11 \<le> v_scale v \<Longrightarrow>
   v_scale (handleWheel v e) = 5"
  by (simp add: handleWheel_def stageRef_def Let_def min_def max_def)

lemma foldl_zoom_in_saturated:
  "v_image v \<Longrightarrow> v_scale v = 5 \<Longrightarrow> \<forall>z \<in> set zs. we_ctrlKey z \<and> we_deltaY z < 0 \<Longrightarrow>
   v_scale (foldl handleWheel v zs) = 5"
proof (induction zs arbitrary: v)
  case Nil
  then show ?case by simp
next
  case (Cons z zs)
  have "v_scale (handleWheel v z) = 5"
    using Cons.prems by (simp add: zoom_in_saturates)
  moreover have "v_image (handleWheel v z)"
    using Cons.prems by (simp add: handleWheel_image)
  ultimately show ?case
    using Cons.IH [of "handleWheel v z"] Cons.prems by simp
qed

text \<open>
  C2. A wheel event with Ctrl held, on the stage of a loaded image, sets the
  scale to \<open>scale * 1.1\<close> when \<open>deltaY < 0\<close> and to \<open>scale / 1.1\<close> otherwise,
  clamped to \<open>[0.1, 5]\<close>; without Ctrl the event changes nothing. Hence a scale
  in \<open>[0.1, 5]\<close> stays there under every sequence of wheel events, and from
  4.8 six events that zoom in end at exactly 5.
\<close>

theorem handleWheel_zoom_clamped:
  "(we_ctrlKey e \<and> v_image v \<longrightarrow>
      handleWheel v e =
        v\<lparr>v_scale := max 0.1 (min 5 (if we_deltaY e < 0 then v_scale v * 1.1
                                        else v_scale v / 1.1))\<rparr>) \<and>
   (\<not> we_ctrlKey e \<longrightarrow> handleWheel v e = v) \<and>
   (0.1 \<le> v_scale v \<and> v_scale v \<le> 5 \<longrightarrow>
      0.1 \<le> v_scale (foldl handleWheel v es) \<and> v_scale (foldl handleWheel v es) \<le> 5) \<and>
   (v_image v \<and> v_scale v = 4.8 \<and> length zs = 6 \<and>
    (\<forall>z \<in> set zs. we_ctrlKey z \<and> we_deltaY z < 0) \<longrightarrow>
      v_scale (foldl handleWheel v zs) = 5)"
proof (intro conjI impI)
  assume "we_ctrlKey e \<and> v_image v"
  then show "handleWheel v e =
        v\<lparr>v_scale := max 0.1 (min 5 (if we_deltaY e < 0 then v_scale v * 1.1
                                        else v_scale v / 1.1))\<rparr>"
    by (simp add: handleWheel_def stageRef_def Let_def)
next
  assume "\<not> we_ctrlKey e"
  then show "handleWheel v e = v" by (simp add: handleWheel_def)
next
  assume "0.1 \<le> v_scale v \<and> v_scale v \<le> 5"
  then show "0.1 \<le> v_scale (foldl handleWheel v es)"
    and "v_scale (foldl handleWheel v es) \<le> 5"
    using foldl_handleWheel_range [of v es] by simp_all
next
  assume a: "v_image v \<and> v_scale v = 4.8 \<and> length zs = 6 \<and>
    (\<forall>z \<in> set zs. we_ctrlKey z \<and> we_deltaY z < 0)"
  then obtain z zs' where zs: "zs = z # zs'" by (cases zs) auto
  from a zs have "v_scale (handleWheel v z) = 5" "v_image (handleWheel v z)"
    by (simp_all add: zoom_in_saturates handleWheel_image)
  with a zs show "v_scale (foldl handleWheel v zs) = 5"
    using foldl_zoom_in_saturated [of "handleWheel v z" zs'] by simp
qed

theorem handleWheel_zoom_clamped_witness:
  "handleWheel (exampleViewer\<lparr>v_scale := 4.8\<rparr>) zoomIn = exampleViewer\<lparr>v_scale := 5\<rparr> \<and>
   handleWheel (exampleViewer\<lparr>v_scale := 4.8\<rparr>) \<lparr>we_ctrlKey = False, we_deltaY = - 100\<rparr> =
     exampleViewer\<lparr>v_scale := 4.8\<rparr> \<and>
   0.1 \<le> v_scale (foldl handleWheel (exampleViewer\<lparr>v_scale := 4.8\<rparr>) (replicate 6 zoomIn)) \<and>
   v_scale (foldl handleWheel (exampleViewer\<lparr>v_scale := 4.8\<rparr>) (replicate 6 zoomIn)) = 5"
  using
    handleWheel_zoom_clamped [of zoomIn "exampleViewer\<lparr>v_scale := 4.8\<rparr>"
      "replicate 6 zoomIn" "replicate 6 zoomIn"]
    handleWheel_zoom_clamped [of "\<lparr>we_ctrlKey = False, we_deltaY = - 100\<rparr>"
      "exampleViewer\<lparr>v_scale := 4.8\<rparr>" "[]" "[]"]
  by (simp add: zoomIn_def exampleViewer_def exampleLoad_def handleImageUpload_def
      initialViewer_def)

subsection \<open>Screen space and image space\<close>

text \<open>
  C3. At a scale in \<open>[0.1, 5]\<close> and any origin, a rectangle whose image-space
  corner is the image of the screen point \<open>(px, py)\<close> under
  \<open>stageToImageCoords\<close> is rendered with its corner at \<open>(px, py)\<close>, for the
  selection and for a marker; and the rendered corner of the selection is
  mapped back to its image-space corner. Numbers are reals, so the round trip
  is exact.
\<close>

theorem stageToImageCoords_round_trip:
  assumes "0.1 \<le> v_scale v" and "v_scale v \<le> 5"
  shows
    "(sel_x (v_imageSelection v) = pt_x (stageToImageCoords v px py) \<and>
      sel_y (v_imageSelection v) = pt_y (stageToImageCoords v px py) \<longrightarrow>
        nd_x (selectionRect v) = px \<and> nd_y (selectionRect v) = py) \<and>
     (mk_x m = pt_x (stageToImageCoords v px py) \<and>
      mk_y m = pt_y (stageToImageCoords v px py) \<longrightarrow>
        nd_x (markerRect v m) = px \<and> nd_y (markerRect v m) = py) \<and>
     stageToImageCoords v (nd_x (selectionRect v)) (nd_y (selectionRect v)) =
       \<lparr>pt_x = sel_x (v_imageSelection v), pt_y = sel_y (v_imageSelection v)\<rparr>"
proof -
  from assms have nz: "v_scale v \<noteq> 0" by simp
  have rescale: "c + (a - c) / v_scale v * v_scale v = a" for a c :: real
    using nz by simp
  show ?thesis
    using nz rescale by (simp add: selectionRect_def markerRect_def stageToImageCoords_def)
qed

theorem stageToImageCoords_round_trip_witness:
  "stageToImageCoords (exampleViewer\<lparr>v_scale := 2, v_position := \<lparr>pt_x = 30, pt_y = 20\<rparr>\<rparr>) 50 80 =
     \<lparr>pt_x = 10, pt_y = 30\<rparr> \<and>
   nd_x (selectionRect (exampleViewer\<lparr>v_scale := 2, v_position := \<lparr>pt_x = 30, pt_y = 20\<rparr>,
      v_imageSelection :=
        \<lparr>sel_x = 10, sel_y = 30, sel_width = 5, sel_height = 5, sel_visible = True\<rparr>\<rparr>)) = 50 \<and>
   nd_y (selectionRect (exampleViewer\<lparr>v_scale := 2, v_position := \<lparr>pt_x = 30, pt_y = 20\<rparr>,
      v_imageSelection :=
        \<lparr>sel_x = 10, sel_y = 30, sel_width = 5, sel_height = 5, sel_visible = True\<rparr>\<rparr>)) = 80"
  using stageToImageCoords_round_trip
    [of "exampleViewer\<lparr>v_scale := 2, v_position := \<lparr>pt_x = 30, pt_y = 20\<rparr>,
          v_imageSelection :=
            \<lparr>sel_x = 10, sel_y = 30, sel_width = 5, sel_height = 5, sel_visible = True\<rparr>\<rparr>"
        50 80 exampleMarker]
  by (simp add: stageToImageCoords_def exampleViewer_def handleImageUpload_def
      exampleLoad_def initialViewer_def)

subsection \<open>Reconciliation of the selection\<close>

text \<open>
  C6. When the effect on the selection prop runs: a supplied value that
  differs from the internal selection in one of the five fields replaces it; a
  supplied value equal in all five fields leaves the state as it is; with no
  value supplied a visible internal selection only loses its visibility. The
  effect calls no callback, and running it again changes nothing.
\<close>

theorem syncSelectionProp_reconciles:
  "(selectionProp = Some sp \<and>
      (sel_x sp \<noteq> sel_x (v_imageSelection v) \<or> sel_y sp \<noteq> sel_y (v_imageSelection v) \<or>
       sel_width sp \<noteq> sel_width (v_imageSelection v) \<or>
       sel_height sp \<noteq> sel_height (v_imageSelection v) \<or>
       sel_visible sp \<noteq> sel_visible (v_imageSelection v))
     \<longrightarrow> syncSelectionProp selectionProp v = (v\<lparr>v_imageSelection := sp\<rparr>, [])) \<and>
   (selectionProp = Some sp \<and>
      sel_x sp = sel_x (v_imageSelection v) \<and> sel_y sp = sel_y (v_imageSelection v) \<and>
      sel_width sp = sel_width (v_imageSelection v) \<and>
      sel_height sp = sel_height (v_imageSelection v) \<and>
      sel_visible sp = sel_visible (v_imageSelection v)
     \<longrightarrow> syncSelectionProp selectionProp v = (v, [])) \<and>
   (selectionProp = None \<and> sel_visible (v_imageSelection v)
     \<longrightarrow> syncSelectionProp selectionProp v =
          (v\<lparr>v_imageSelection := (v_imageSelection v)\<lparr>sel_visible := False\<rparr>\<rparr>, [])) \<and>
   (selectionProp = None \<and> \<not> sel_visible (v_imageSelection v)
     \<longrightarrow> syncSelectionProp selectionProp v = (v, [])) \<and>
   snd (syncSelectionProp selectionProp v) = [] \<and>
   syncSelectionProp selectionProp (fst (syncSelectionProp selectionProp v)) =
     (fst (syncSelectionProp selectionProp v), [])"
proof (cases selectionProp)
  case None
  then show ?thesis by (simp add: syncSelectionProp_def)
next
  case (Some given)
  then show ?thesis by (auto simp: syncSelectionProp_def)
qed

theorem syncSelectionProp_reconciles_witness:
  "syncSelectionProp
      (Some \<lparr>sel_x = 10, sel_y = 10, sel_width = 50, sel_height = 30, sel_visible = True\<rparr>)
      exampleViewer =
     (exampleViewer\<lparr>v_imageSelection :=
        \<lparr>sel_x = 10, sel_y = 10, sel_width = 50, sel_height = 30, sel_visible = True\<rparr>\<rparr>, []) \<and>
   syncSelectionProp (Some (v_imageSelection (sys_viewer drawnSystem))) (sys_viewer drawnSystem) =
     (sys_viewer drawnSystem, []) \<and>
   syncSelectionProp None (sys_viewer drawnSystem) =
     ((sys_viewer drawnSystem)\<lparr>v_imageSelection :=
        (v_imageSelection (sys_viewer drawnSystem))\<lparr>sel_visible := False\<rparr>\<rparr>, []) \<and>
   syncSelectionProp None exampleViewer = (exampleViewer, [])"
proof -
  have vis: "sel_visible (v_imageSelection (sys_viewer drawnSystem))"
    by (simp add: drawnSystem_def run_def step_def exampleLoad_def pointerEvent_def
        initialSystem_def initialViewer_def initialPage_def pageProps_def applyEffects_def
        handleImageUpload_def handleMouseDown_def handleMouseMove_def stageToImageCoords_def
        syncSelectionProp_def handleSelectionChange_def Let_def)
  have hid: "\<not> sel_visible (v_imageSelection exampleViewer)"
    "sel_x (v_imageSelection exampleViewer) = 0"
    by (simp_all add: exampleViewer_def handleImageUpload_def exampleLoad_def initialViewer_def)
  show ?thesis
    using vis hid
      syncSelectionProp_reconciles
        [of "Some \<lparr>sel_x = 10, sel_y = 10, sel_width = 50, sel_height = 30, sel_visible = True\<rparr>"
            "\<lparr>sel_x = 10, sel_y = 10, sel_width = 50, sel_height = 30, sel_visible = True\<rparr>"
            exampleViewer]
      syncSelectionProp_reconciles
        [of "Some (v_imageSelection (sys_viewer drawnSystem))"
            "v_imageSelection (sys_viewer drawnSystem)" "sys_viewer drawnSystem"]
      syncSelectionProp_reconciles
        [of None "v_imageSelection (sys_viewer drawnSystem)" "sys_viewer drawnSystem"]
      syncSelectionProp_reconciles [of None "v_imageSelection exampleViewer" exampleViewer]
    by simp
qed

subsection \<open>Minimum size of a resize\<close>

lemma transformEnd_unchanged_node:
  assumes "v_scale v \<noteq> 0" and "v_image v"
  shows "handleMarkerTransformEnd pr v (markerRect v m) (mk_id m) =
      (v, if p_onMarkerMove pr
          then [OnMarkerMove (mk_id m) (mk_x m) (mk_y m) (mk_width m) (mk_height m)] else [])"
  using assms
  by (simp add: handleMarkerTransformEnd_def markerRect_def transformerRef_def Let_def)

text \<open>
  C7. The Transformer's bound function, at the current scale: a requested box
  whose width or height is strictly below \<open>5 * scale\<close> is rejected and the box
  from before the attempt is kept; a box with both dimensions at least
  \<open>5 * scale\<close> is accepted as requested. When the node of a marker is still
  as rendered at the end of the gesture, the geometry reported for the marker
  is the stored one. The Transformer is configured with rotation disabled and
  without a locked aspect ratio.
\<close>

theorem boundBoxFunc_minimum_size:
  "(bx_width newBox < 5 * v_scale v \<or> bx_height newBox < 5 * v_scale v
      \<longrightarrow> boundBoxFunc v oldBox newBox = oldBox) \<and>
   (5 * v_scale v \<le> bx_width newBox \<and> 5 * v_scale v \<le> bx_height newBox
      \<longrightarrow> boundBoxFunc v oldBox newBox = newBox) \<and>
   (v_scale v \<noteq> 0 \<and> v_image v \<and> p_onMarkerMove pr
      \<longrightarrow> handleMarkerTransformEnd pr v (markerRect v m) (mk_id m) =
            (v, [OnMarkerMove (mk_id m) (mk_x m) (mk_y m) (mk_width m) (mk_height m)])) \<and>
   \<not> rotateEnabled transformer \<and> \<not> keepRatio transformer"
proof -
  have "boundBoxFunc v oldBox newBox =
      (if bx_width newBox < 5 * v_scale v \<or> bx_height newBox < 5 * v_scale v
       then oldBox else newBox)"
    by (simp add: boundBoxFunc_def Let_def)
  moreover have "\<not> rotateEnabled transformer" "\<not> keepRatio transformer"
    by (simp_all add: transformer_def)
  ultimately show ?thesis
    using transformEnd_unchanged_node [of v pr m] by auto
qed

theorem boundBoxFunc_minimum_size_witness:
  "boundBoxFunc (exampleViewer\<lparr>v_scale := 2\<rparr>)
      \<lparr>bx_x = 0, bx_y = 0, bx_width = 40, bx_height = 40, bx_rotation = 0\<rparr>
      \<lparr>bx_x = 0, bx_y = 0, bx_width = 9, bx_height = 40, bx_rotation = 0\<rparr> =
     \<lparr>bx_x = 0, bx_y = 0, bx_width = 40, bx_height = 40, bx_rotation = 0\<rparr> \<and>
   boundBoxFunc (exampleViewer\<lparr>v_scale := 2\<rparr>)
      \<lparr>bx_x = 0, bx_y = 0, bx_width = 40, bx_height = 40, bx_rotation = 0\<rparr>
      \<lparr>bx_x = 0, bx_y = 0, bx_width = 10, bx_height = 12, bx_rotation = 0\<rparr> =
     \<lparr>bx_x = 0, bx_y = 0, bx_width = 10, bx_height = 12, bx_rotation = 0\<rparr> \<and>
   handleMarkerTransformEnd (pageProps initialPage) (exampleViewer\<lparr>v_scale := 2\<rparr>)
      (markerRect (exampleViewer\<lparr>v_scale := 2\<rparr>) exampleMarker) (mk_id exampleMarker) =
     (exampleViewer\<lparr>v_scale := 2\<rparr>, [OnMarkerMove ''marker-1700000000000'' 10 10 50 30])"
  using
    boundBoxFunc_minimum_size
      [of "\<lparr>bx_x = 0, bx_y = 0, bx_width = 9, bx_height = 40, bx_rotation = 0\<rparr>"
          "exampleViewer\<lparr>v_scale := 2\<rparr>"
          "\<lparr>bx_x = 0, bx_y = 0, bx_width = 40, bx_height = 40, bx_rotation = 0\<rparr>"
          "pageProps initialPage" exampleMarker]
    boundBoxFunc_minimum_size
      [of "\<lparr>bx_x = 0, bx_y = 0, bx_width = 10, bx_height = 12, bx_rotation = 0\<rparr>"
          "exampleViewer\<lparr>v_scale := 2\<rparr>"
          "\<lparr>bx_x = 0, bx_y = 0, bx_width = 40, bx_height = 40, bx_rotation = 0\<rparr>"
          "pageProps initialPage" exampleMarker]
  by (simp add: exampleViewer_def handleImageUpload_def exampleLoad_def initialViewer_def
      pageProps_def exampleMarker_def)

section \<open>The example traces, evaluated\<close>

lemmas handler_defs =
  step_def run_def initialSystem_def initialViewer_def initialPage_def pageProps_def
  applyEffects_def handleImageUpload_def handleMouseDown_def handleMouseMove_def
  handleMouseUp_def handleKeyDown_def stageToImageCoords_def syncSelectionProp_def
  handleSelectionChange_def setSelectedMarkerId_def handleSubmit_def onSubmit_def
  formSchema_def truthy_def handleAddMarker_def hasValidSelection_def markerRendered_def
  selectionRendered_def Let_def

lemma exampleViewer_eq:
  "exampleViewer =
     \<lparr>v_image = True, v_scale = 1, v_position = \<lparr>pt_x = 0, pt_y = 0\<rparr>,
      v_imageSelection =
        \<lparr>sel_x = 0, sel_y = 0, sel_width = 0, sel_height = 0, sel_visible = False\<rparr>,
      v_isDrawing = False, v_startPoint = \<lparr>pt_x = 0, pt_y = 0\<rparr>,
      v_isDragging = False, v_spacePressed = False\<rparr>"
  by (simp add: exampleViewer_def exampleLoad_def handleImageUpload_def initialViewer_def)

lemma drawnSystem_eq:
  "drawnSystem =
    \<lparr>sys_viewer =
       \<lparr>v_image = True, v_scale = 1, v_position = \<lparr>pt_x = 0, pt_y = 0\<rparr>,
        v_imageSelection =
          \<lparr>sel_x = 10, sel_y = 10, sel_width = 50, sel_height = 30, sel_visible = True\<rparr>,
        v_isDrawing = True, v_startPoint = \<lparr>pt_x = 10, pt_y = 10\<rparr>,
        v_isDragging = False, v_spacePressed = False\<rparr>,
     sys_page =
       \<lparr>pg_markers = [],
        pg_selection =
          \<lparr>sel_x = 10, sel_y = 10, sel_width = 50, sel_height = 30, sel_visible = True\<rparr>,
        pg_selectedMarkerId = None\<rparr>\<rparr>"
  by (simp add: drawnSystem_def exampleLoad_def pointerEvent_def handler_defs)

lemma exampleClock: "numberToString 1700000000000 = ''1700000000000''"
  by (simp add: numberToString_def digits.simps digitChar_def)

lemma exampleId: "''marker-'' @ numberToString 1700000000000 = ''marker-1700000000000''"
  by (simp add: exampleClock)

lemma savedSystem_eq:
  "savedSystem =
    \<lparr>sys_viewer =
       \<lparr>v_image = True, v_scale = 1, v_position = \<lparr>pt_x = 0, pt_y = 0\<rparr>,
        v_imageSelection =
          \<lparr>sel_x = 0, sel_y = 0, sel_width = 0, sel_height = 0, sel_visible = False\<rparr>,
        v_isDrawing = False, v_startPoint = \<lparr>pt_x = 10, pt_y = 10\<rparr>,
        v_isDragging = False, v_spacePressed = False\<rparr>,
     sys_page =
       \<lparr>pg_markers = [exampleMarker],
        pg_selection =
          \<lparr>sel_x = 0, sel_y = 0, sel_width = 0, sel_height = 0, sel_visible = False\<rparr>,
        pg_selectedMarkerId = Some ''marker-1700000000000''\<rparr>\<rparr>"
  using exampleId
  by (simp add: savedSystem_def drawnSystem_eq exampleForm_def exampleMarker_def
      pointerEvent_def handler_defs)

lemma redrawnSystem_eq:
  "redrawnSystem =
    \<lparr>sys_viewer =
       \<lparr>v_image = True, v_scale = 1, v_position = \<lparr>pt_x = 0, pt_y = 0\<rparr>,
        v_imageSelection =
          \<lparr>sel_x = 100, sel_y = 100, sel_width = 40, sel_height = 20, sel_visible = True\<rparr>,
        v_isDrawing = False, v_startPoint = \<lparr>pt_x = 100, pt_y = 100\<rparr>,
        v_isDragging = False, v_spacePressed = False\<rparr>,
     sys_page =
       \<lparr>pg_markers = [exampleMarker],
        pg_selection =
          \<lparr>sel_x = 100, sel_y = 100, sel_width = 40, sel_height = 20, sel_visible = True\<rparr>,
        pg_selectedMarkerId = None\<rparr>\<rparr>"
  by (simp add: redrawnSystem_def savedSystem_eq pointerEvent_def handler_defs)

lemma panningSystem_eq:
  "panningSystem =
    \<lparr>sys_viewer =
       \<lparr>v_image = True, v_scale = 1, v_position = \<lparr>pt_x = 0, pt_y = 0\<rparr>,
        v_imageSelection =
          \<lparr>sel_x = 0, sel_y = 0, sel_width = 0, sel_height = 0, sel_visible = False\<rparr>,
        v_isDrawing = False, v_startPoint = \<lparr>pt_x = 10, pt_y = 10\<rparr>,
        v_isDragging = True, v_spacePressed = True\<rparr>,
     sys_page =
       \<lparr>pg_markers = [exampleMarker],
        pg_selection =
          \<lparr>sel_x = 0, sel_y = 0, sel_width = 0, sel_height = 0, sel_visible = False\<rparr>,
        pg_selectedMarkerId = Some ''marker-1700000000000''\<rparr>\<rparr>"
  by (simp add: panningSystem_def savedSystem_eq pointerEvent_def handler_defs)

section \<open>Gestures\<close>

subsection \<open>Drawing a selection\<close>

lemma handleMouseMove_Rect:
  "me_targetClassName e = ''Rect'' \<Longrightarrow> handleMouseMove pr v e = (v, [])"
  by (simp add: handleMouseMove_def)

lemma handleMouseDown_draw:
  assumes "v_image v" "\<not> v_spacePressed v" "me_altKey e" "me_button e = 0" "me_stage e"
    "me_targetClassName e \<noteq> ''Rect''" "me_pointerPos e = Some p"
  shows "fst (handleMouseDown pr v e) =
     v\<lparr>v_isDrawing := True, v_startPoint := stageToImageCoords v (pt_x p) (pt_y p),
       v_imageSelection :=
         \<lparr>sel_x = pt_x (stageToImageCoords v (pt_x p) (pt_y p)),
          sel_y = pt_y (stageToImageCoords v (pt_x p) (pt_y p)),
          sel_width = 0, sel_height = 0, sel_visible = True\<rparr>\<rparr>"
  using assms by (simp add: handleMouseDown_def Let_def)

lemma handleMouseMove_draw:
  assumes "v_image v" "v_isDrawing v" "\<not> v_isDragging v" "me_altKey e" "me_stage e"
    "me_targetClassName e \<noteq> ''Rect''" "me_pointerPos e = Some p"
  shows "handleMouseMove pr v e =
     (let c = stageToImageCoords v (pt_x p) (pt_y p);
          newSelection =
            \<lparr>sel_x = min (pt_x (v_startPoint v)) (pt_x c),
             sel_y = min (pt_y (v_startPoint v)) (pt_y c),
             sel_width = \<bar>pt_x c - pt_x (v_startPoint v)\<bar>,
             sel_height = \<bar>pt_y c - pt_y (v_startPoint v)\<bar>, sel_visible = True\<rparr>
      in (v\<lparr>v_imageSelection := newSelection\<rparr>,
          if p_onSelectionChange pr then [OnSelectionChange newSelection (Some True)] else []))"
  using assms by (simp add: handleMouseMove_def Let_def)

text \<open>
  The claim C4 as stated, that every pointer move of a draw gesture recomputes
  the selection and notifies, fails on a move whose target is a rectangle:
  after the drag from \<open>(10, 10)\<close> to \<open>(60, 40)\<close> the pointer comes back to
  \<open>(40, 30)\<close>, over the selection itself, with Alt held and the drawing in
  progress. The handler returns at once: no call is made and the selection
  stays \<open>50 \<times> 30\<close> instead of becoming the bounding box \<open>30 \<times> 20\<close>.
\<close>

theorem draw_move_over_rect_counterexample:
  "v_image (sys_viewer drawnSystem) \<and> v_isDrawing (sys_viewer drawnSystem) \<and>
   \<not> v_isDragging (sys_viewer drawnSystem) \<and> me_altKey moveBackOverSelection \<and>
   me_pointerPos moveBackOverSelection = Some \<lparr>pt_x = 40, pt_y = 30\<rparr> \<and>
   snd (handleMouseMove (pageProps (sys_page drawnSystem)) (sys_viewer drawnSystem)
          moveBackOverSelection) = [] \<and>
   v_imageSelection
     (fst (handleMouseMove (pageProps (sys_page drawnSystem)) (sys_viewer drawnSystem)
             moveBackOverSelection)) =
     \<lparr>sel_x = 10, sel_y = 10, sel_width = 50, sel_height = 30, sel_visible = True\<rparr> \<and>
   v_imageSelection
     (fst (handleMouseMove (pageProps (sys_page drawnSystem)) (sys_viewer drawnSystem)
             moveBackOverSelection)) \<noteq>
     \<lparr>sel_x = 10, sel_y = 10, sel_width = 30, sel_height = 20, sel_visible = True\<rparr>"
  by (simp add: drawnSystem_eq moveBackOverSelection_def pointerEvent_def handleMouseMove_def)

text \<open>
  C4, amended. While a selection is being drawn (drawing in progress, no pan
  in progress, image loaded, Alt held), every pointer move whose target is not
  a rectangle and whose pointer position resolves sets the selection to the
  image-space bounding box of the press point and the current point
  (\<open>x = min\<close>, \<open>y = min\<close>, \<open>width = |dx|\<close>, \<open>height = |dy|\<close>, visible) and calls
  \<open>onSelectionChange\<close> with it and \<open>isNewSelection = true\<close>; a pointer move
  whose target is a rectangle is ignored. At scale 1 and origin \<open>(0, 0)\<close>,
  Alt+press at \<open>(10, 10)\<close> followed by a move to \<open>(60, 40)\<close> calls
  \<open>onSelectionChange\<close> with \<open>x = 10, y = 10, width = 50, height = 30\<close>,
  visible, \<open>isNewSelection = true\<close>.
\<close>

theorem handleMouseMove_draws_bounding_box:
  "(v_image v \<and> v_isDrawing v \<and> \<not> v_isDragging v \<and> me_altKey e \<and> me_stage e \<and>
    me_targetClassName e \<noteq> ''Rect'' \<and> me_pointerPos e = Some p \<longrightarrow>
      handleMouseMove pr v e =
        (let c = stageToImageCoords v (pt_x p) (pt_y p);
             newSelection =
               \<lparr>sel_x = min (pt_x (v_startPoint v)) (pt_x c),
                sel_y = min (pt_y (v_startPoint v)) (pt_y c),
                sel_width = \<bar>pt_x c - pt_x (v_startPoint v)\<bar>,
                sel_height = \<bar>pt_y c - pt_y (v_startPoint v)\<bar>, sel_visible = True\<rparr>
         in (v\<lparr>v_imageSelection := newSelection\<rparr>,
             if p_onSelectionChange pr then [OnSelectionChange newSelection (Some True)]
             else []))) \<and>
   (me_targetClassName e = ''Rect'' \<longrightarrow> handleMouseMove pr v e = (v, [])) \<and>
   (v_image v \<and> \<not> v_spacePressed v \<and> \<not> v_isDragging v \<and> v_scale v = 1 \<and>
    v_position v = \<lparr>pt_x = 0, pt_y = 0\<rparr> \<and> p_onSelectionChange pr \<and>
    me_altKey d \<and> me_button d = 0 \<and> me_stage d \<and> me_targetClassName d \<noteq> ''Rect'' \<and>
    me_pointerPos d = Some \<lparr>pt_x = 10, pt_y = 10\<rparr> \<and>
    me_altKey m \<and> me_stage m \<and> me_targetClassName m \<noteq> ''Rect'' \<and>
    me_pointerPos m = Some \<lparr>pt_x = 60, pt_y = 40\<rparr> \<longrightarrow>
      snd (handleMouseMove pr (fst (handleMouseDown pr v d)) m) =
        [OnSelectionChange
           \<lparr>sel_x = 10, sel_y = 10, sel_width = 50, sel_height = 30, sel_visible = True\<rparr>
           (Some True)])"
proof (intro conjI impI)
  assume "v_image v \<and> v_isDrawing v \<and> \<not> v_isDragging v \<and> me_altKey e \<and> me_stage e \<and>
    me_targetClassName e \<noteq> ''Rect'' \<and> me_pointerPos e = Some p"
  then show "handleMouseMove pr v e =
        (let c = stageToImageCoords v (pt_x p) (pt_y p);
             newSelection =
               \<lparr>sel_x = min (pt_x (v_startPoint v)) (pt_x c),
                sel_y = min (pt_y (v_startPoint v)) (pt_y c),
                sel_width = \<bar>pt_x c - pt_x (v_startPoint v)\<bar>,
                sel_height = \<bar>pt_y c - pt_y (v_startPoint v)\<bar>, sel_visible = True\<rparr>
         in (v\<lparr>v_imageSelection := newSelection\<rparr>,
             if p_onSelectionChange pr then [OnSelectionChange newSelection (Some True)]
             else []))"
    by (simp add: handleMouseMove_draw)
next
  assume "me_targetClassName e = ''Rect''"
  then show "handleMouseMove pr v e = (v, [])" by (rule handleMouseMove_Rect)
next
  assume a: "v_image v \<and> \<not> v_spacePressed v \<and> \<not> v_isDragging v \<and> v_scale v = 1 \<and>
    v_position v = \<lparr>pt_x = 0, pt_y = 0\<rparr> \<and> p_onSelectionChange pr \<and>
    me_altKey d \<and> me_button d = 0 \<and> me_stage d \<and> me_targetClassName d \<noteq> ''Rect'' \<and>
    me_pointerPos d = Some \<lparr>pt_x = 10, pt_y = 10\<rparr> \<and>
    me_altKey m \<and> me_stage m \<and> me_targetClassName m \<noteq> ''Rect'' \<and>
    me_pointerPos m = Some \<lparr>pt_x = 60, pt_y = 40\<rparr>"
  let ?v1 = "fst (handleMouseDown pr v d)"
  have v1: "?v1 = v\<lparr>v_isDrawing := True, v_startPoint := \<lparr>pt_x = 10, pt_y = 10\<rparr>,
      v_imageSelection :=
        \<lparr>sel_x = 10, sel_y = 10, sel_width = 0, sel_height = 0, sel_visible = True\<rparr>\<rparr>"
    using a handleMouseDown_draw [of v d "\<lparr>pt_x = 10, pt_y = 10\<rparr>" pr]
    by (simp add: stageToImageCoords_def)
  have "v_image ?v1" "v_isDrawing ?v1" "\<not> v_isDragging ?v1"
    using a by (simp_all add: v1)
  with a have "handleMouseMove pr ?v1 m =
      (let c = stageToImageCoords ?v1 60 40;
           newSelection =
             \<lparr>sel_x = min (pt_x (v_startPoint ?v1)) (pt_x c),
              sel_y = min (pt_y (v_startPoint ?v1)) (pt_y c),
              sel_width = \<bar>pt_x c - pt_x (v_startPoint ?v1)\<bar>,
              sel_height = \<bar>pt_y c - pt_y (v_startPoint ?v1)\<bar>, sel_visible = True\<rparr>
       in (?v1\<lparr>v_imageSelection := newSelection\<rparr>,
           if p_onSelectionChange pr then [OnSelectionChange newSelection (Some True)]
           else []))"
    using handleMouseMove_draw [of ?v1 m "\<lparr>pt_x = 60, pt_y = 40\<rparr>" pr] by simp
  with a show "snd (handleMouseMove pr ?v1 m) =
      [OnSelectionChange
         \<lparr>sel_x = 10, sel_y = 10, sel_width = 50, sel_height = 30, sel_visible = True\<rparr>
         (Some True)]"
    by (simp add: v1 stageToImageCoords_def Let_def)
qed

theorem handleMouseMove_draws_bounding_box_witness:
  "handleMouseMove (pageProps initialPage) (sys_viewer drawnSystem)
      (pointerEvent ''Image'' True 30 70) =
     ((sys_viewer drawnSystem)\<lparr>v_imageSelection :=
         \<lparr>sel_x = 10, sel_y = 10, sel_width = 20, sel_height = 60, sel_visible = True\<rparr>\<rparr>,
      [OnSelectionChange
         \<lparr>sel_x = 10, sel_y = 10, sel_width = 20, sel_height = 60, sel_visible = True\<rparr>
         (Some True)]) \<and>
   handleMouseMove (pageProps initialPage) (sys_viewer drawnSystem) moveBackOverSelection =
     (sys_viewer drawnSystem, []) \<and>
   snd (handleMouseMove (pageProps initialPage)
          (fst (handleMouseDown (pageProps initialPage) exampleViewer
                  (pointerEvent ''Image'' True 10 10)))
          (pointerEvent ''Image'' True 60 40)) =
     [OnSelectionChange
        \<lparr>sel_x = 10, sel_y = 10, sel_width = 50, sel_height = 30, sel_visible = True\<rparr>
        (Some True)]"
  using
    handleMouseMove_draws_bounding_box
      [of "sys_viewer drawnSystem" "pointerEvent ''Image'' True 30 70"
          "\<lparr>pt_x = 30, pt_y = 70\<rparr>" "pageProps initialPage"
          "pointerEvent ''Image'' True 10 10" "pointerEvent ''Image'' True 60 40"]
    handleMouseMove_draws_bounding_box
      [of "sys_viewer drawnSystem" moveBackOverSelection "\<lparr>pt_x = 40, pt_y = 30\<rparr>"
          "pageProps initialPage"
          "pointerEvent ''Image'' True 10 10" "pointerEvent ''Image'' True 60 40"]
    handleMouseMove_draws_bounding_box
      [of exampleViewer "pointerEvent ''Image'' True 60 40" "\<lparr>pt_x = 60, pt_y = 40\<rparr>"
          "pageProps initialPage"
          "pointerEvent ''Image'' True 10 10" "pointerEvent ''Image'' True 60 40"]
  by (simp add: drawnSystem_eq exampleViewer_eq pointerEvent_def moveBackOverSelection_def
      pageProps_def stageToImageCoords_def Let_def)

subsection \<open>Panning\<close>

lemma handleMouseMove_pan:
  assumes "v_isDragging v" and "v_image v"
  shows "handleMouseMove pr v e =
    ((if me_stage e \<and> me_targetClassName e \<noteq> ''Rect''
      then v\<lparr>v_position :=
               \<lparr>pt_x = pt_x (v_position v) + me_movementX e,
                pt_y = pt_y (v_position v) + me_movementY e\<rparr>\<rparr>
      else v), [])"
  using assms by (simp add: handleMouseMove_def Let_def)

lemma step_pan:
  assumes "v_isDragging (sys_viewer s)" and "v_image (sys_viewer s)"
  shows "step s (MouseMove e) =
    s\<lparr>sys_viewer :=
        (if me_stage e \<and> me_targetClassName e \<noteq> ''Rect''
         then (sys_viewer s)\<lparr>v_position :=
                \<lparr>pt_x = pt_x (v_position (sys_viewer s)) + me_movementX e,
                 pt_y = pt_y (v_position (sys_viewer s)) + me_movementY e\<rparr>\<rparr>
         else sys_viewer s)\<rparr>"
  using assms by (simp add: step_def handleMouseMove_pan applyEffects_def)

text \<open>
  The claim C8 as stated, that every pointer move while panning adds its
  displacement to the origin, fails on a move whose target is a rectangle:
  with the pan in progress next to the saved marker, the pointer moves by
  \<open>(-15, -15)\<close> onto the marker. The handler returns at once and the origin
  stays \<open>(0, 0)\<close> instead of becoming \<open>(-15, -15)\<close>.
\<close>

theorem pan_over_marker_counterexample:
  "v_isDragging (sys_viewer panningSystem) \<and> v_image (sys_viewer panningSystem) \<and>
   me_movementX panOverMarker = - 15 \<and> me_movementY panOverMarker = - 15 \<and>
   v_position (sys_viewer panningSystem) = \<lparr>pt_x = 0, pt_y = 0\<rparr> \<and>
   step panningSystem (MouseMove panOverMarker) = panningSystem \<and>
   v_position (sys_viewer (step panningSystem (MouseMove panOverMarker))) \<noteq>
     \<lparr>pt_x = pt_x (v_position (sys_viewer panningSystem)) + me_movementX panOverMarker,
      pt_y = pt_y (v_position (sys_viewer panningSystem)) + me_movementY panOverMarker\<rparr>"
  by (simp add: panningSystem_eq panOverMarker_def step_def handleMouseMove_def
      applyEffects_def pageProps_def)

text \<open>
  C8, amended. A pointer move while panning (pan in progress, image loaded)
  whose target is not a rectangle changes only the viewport origin, by the
  displacement of the move (\<open>originX += dx\<close>, \<open>originY += dy\<close>); a pointer
  move whose target is a rectangle changes nothing. In both cases no callback
  is called, the page (every marker's stored rectangle, the canonical
  selection, the focus) is unchanged, and so are the internal selection and
  the scale.
\<close>

theorem pan_changes_only_origin:
  assumes "v_isDragging (sys_viewer s)" and "v_image (sys_viewer s)"
  shows
    "(me_stage e \<and> me_targetClassName e \<noteq> ''Rect'' \<longrightarrow>
        step s (MouseMove e) =
          s\<lparr>sys_viewer := (sys_viewer s)\<lparr>v_position :=
               \<lparr>pt_x = pt_x (v_position (sys_viewer s)) + me_movementX e,
                pt_y = pt_y (v_position (sys_viewer s)) + me_movementY e\<rparr>\<rparr>\<rparr>) \<and>
     (me_targetClassName e = ''Rect'' \<longrightarrow> step s (MouseMove e) = s) \<and>
     snd (handleMouseMove (pageProps (sys_page s)) (sys_viewer s) e) = [] \<and>
     sys_page (step s (MouseMove e)) = sys_page s \<and>
     v_imageSelection (sys_viewer (step s (MouseMove e))) = v_imageSelection (sys_viewer s) \<and>
     v_scale (sys_viewer (step s (MouseMove e))) = v_scale (sys_viewer s)"
proof -
  note moved = step_pan [OF assms, of e]
  have "snd (handleMouseMove (pageProps (sys_page s)) (sys_viewer s) e) = []"
    using assms by (simp add: handleMouseMove_pan)
  moreover have "sys_page (step s (MouseMove e)) = sys_page s"
    by (simp add: moved)
  moreover have
    "v_imageSelection (sys_viewer (step s (MouseMove e))) = v_imageSelection (sys_viewer s)"
    "v_scale (sys_viewer (step s (MouseMove e))) = v_scale (sys_viewer s)"
    by (simp_all add: moved)
  ultimately show ?thesis
    by (simp add: moved)
qed

theorem pan_changes_only_origin_witness:
  "step panningSystem (MouseMove panOverImage) =
     panningSystem\<lparr>sys_viewer :=
       (sys_viewer panningSystem)\<lparr>v_position := \<lparr>pt_x = 20, pt_y = 10\<rparr>\<rparr>\<rparr> \<and>
   pg_markers (sys_page (step panningSystem (MouseMove panOverImage))) = [exampleMarker] \<and>
   step panningSystem (MouseMove panOverMarker) = panningSystem"
  using pan_changes_only_origin [of panningSystem panOverImage]
    pan_changes_only_origin [of panningSystem panOverMarker]
  by (simp add: panningSystem_eq panOverImage_def panOverMarker_def)

subsection \<open>Dragging a marker or the selection\<close>










text \<open>
  C10. The end of a drag of the visible selection gives it the position of
  the dropped node, converted to image space, and keeps its width, its height
  and its visibility: in the internal state, in the argument of
  \<open>onSelectionChange\<close>, which carries no \<open>isNewSelection\<close> field, and in the
  selection the page stores; the focus of the page is not touched.
\<close>

theorem selection_drag_keeps_size:
  "(sel_visible (v_imageSelection v) \<longrightarrow>
      handleSelectionDragEnd pr v e =
        (v\<lparr>v_imageSelection := (v_imageSelection v)
             \<lparr>sel_x := (nd_x (de_target e) - pt_x (v_position v)) / v_scale v,
              sel_y := (nd_y (de_target e) - pt_y (v_position v)) / v_scale v\<rparr>\<rparr>,
         if p_onSelectionChange pr
         then [OnSelectionChange ((v_imageSelection v)
             \<lparr>sel_x := (nd_x (de_target e) - pt_x (v_position v)) / v_scale v,
              sel_y := (nd_y (de_target e) - pt_y (v_position v)) / v_scale v\<rparr>) None]
         else [])) \<and>
   sel_width (v_imageSelection (fst (handleSelectionDragEnd pr v e))) =
     sel_width (v_imageSelection v) \<and>
   sel_height (v_imageSelection (fst (handleSelectionDragEnd pr v e))) =
     sel_height (v_imageSelection v) \<and>
   sel_visible (v_imageSelection (fst (handleSelectionDragEnd pr v e))) \<and>
   (selectionRendered s \<longrightarrow>
      step s (SelectionDragEnd e) =
        \<lparr>sys_viewer = fst (handleSelectionDragEnd (pageProps (sys_page s)) (sys_viewer s) e),
         sys_page = (sys_page s)\<lparr>pg_selection :=
           v_imageSelection
             (fst (handleSelectionDragEnd (pageProps (sys_page s)) (sys_viewer s) e))\<rparr>\<rparr>)"
proof (intro conjI impI)
  assume "sel_visible (v_imageSelection v)"
  then show "handleSelectionDragEnd pr v e =
        (v\<lparr>v_imageSelection := (v_imageSelection v)
             \<lparr>sel_x := (nd_x (de_target e) - pt_x (v_position v)) / v_scale v,
              sel_y := (nd_y (de_target e) - pt_y (v_position v)) / v_scale v\<rparr>\<rparr>,
         if p_onSelectionChange pr
         then [OnSelectionChange ((v_imageSelection v)
             \<lparr>sel_x := (nd_x (de_target e) - pt_x (v_position v)) / v_scale v,
              sel_y := (nd_y (de_target e) - pt_y (v_position v)) / v_scale v\<rparr>) None]
         else [])"
    by (simp add: handleSelectionDragEnd_def Let_def)
next
  show "sel_width (v_imageSelection (fst (handleSelectionDragEnd pr v e))) =
      sel_width (v_imageSelection v)"
    and "sel_height (v_imageSelection (fst (handleSelectionDragEnd pr v e))) =
      sel_height (v_imageSelection v)"
    and "sel_visible (v_imageSelection (fst (handleSelectionDragEnd pr v e)))"
    by (simp_all add: handleSelectionDragEnd_def Let_def)
next
  assume "selectionRendered s"
  then show "step s (SelectionDragEnd e) =
        \<lparr>sys_viewer = fst (handleSelectionDragEnd (pageProps (sys_page s)) (sys_viewer s) e),
         sys_page = (sys_page s)\<lparr>pg_selection :=
           v_imageSelection
             (fst (handleSelectionDragEnd (pageProps (sys_page s)) (sys_viewer s) e))\<rparr>\<rparr>"
    by (simp add: step_def handleSelectionDragEnd_def pageProps_def applyEffects_def
        handleSelectionChange_def syncSelectionProp_def Let_def)
qed

theorem selection_drag_keeps_size_witness:
  "handleSelectionDragEnd (pageProps (sys_page redrawnSystem)) (sys_viewer redrawnSystem)
      selectionDragged =
     ((sys_viewer redrawnSystem)\<lparr>v_imageSelection :=
         \<lparr>sel_x = 130, sel_y = 90, sel_width = 40, sel_height = 20, sel_visible = True\<rparr>\<rparr>,
      [OnSelectionChange
         \<lparr>sel_x = 130, sel_y = 90, sel_width = 40, sel_height = 20, sel_visible = True\<rparr> None]) \<and>
   step redrawnSystem (SelectionDragEnd selectionDragged) =
     \<lparr>sys_viewer = (sys_viewer redrawnSystem)\<lparr>v_imageSelection :=
         \<lparr>sel_x = 130, sel_y = 90, sel_width = 40, sel_height = 20, sel_visible = True\<rparr>\<rparr>,
      sys_page = (sys_page redrawnSystem)\<lparr>pg_selection :=
         \<lparr>sel_x = 130, sel_y = 90, sel_width = 40, sel_height = 20, sel_visible = True\<rparr>\<rparr>\<rparr>"
  using selection_drag_keeps_size [of "sys_viewer redrawnSystem"
      "pageProps (sys_page redrawnSystem)" selectionDragged redrawnSystem]
  by (simp add: redrawnSystem_eq selectionDragged_def pageProps_def selectionRendered_def)

section \<open>Identifiers of markers\<close>

lemma digitChar_code: "d < 10 \<Longrightarrow> (of_char (digitChar d) :: nat) = 48 + d"
proof -
  assume "d < 10"
  then have "d \<in> {0, 1, 2, 3, 4, 5, 6, 7, 8, 9}" by auto
  then show ?thesis by (auto simp: digitChar_def)
qed

text \<open>Reading the digits back gives the number, so \<open>digits\<close> is injective.\<close>

lemma digits_read: "foldl (\<lambda>a c. 10 * a + (of_char c - 48)) 0 (digits n) = n"
proof (induction n rule: digits.induct)
  case (1 n)
  show ?case
  proof (cases "n < 10")
    case True
    then show ?thesis by (subst digits.simps) (simp add: digitChar_code)
  next
    case False
    with "1" have "foldl (\<lambda>a c. 10 * a + (of_char c - 48)) 0 (digits (n div 10)) = n div 10"
      by simp
    with False show ?thesis
      by (subst digits.simps) (simp add: digitChar_code)
  qed
qed

lemma digits_inject: "digits a = digits b \<Longrightarrow> a = b"
  by (metis digits_read)

lemma digits_no_minus: "CHR ''-'' \<notin> set (digits n)"
proof (induction n rule: digits.induct)
  case (1 n)
  have d: "digitChar k \<noteq> CHR ''-''" for k
  proof -
    define r where "r = k mod 10"
    then have "r < 10" by simp
    then have "r \<in> {0, 1, 2, 3, 4, 5, 6, 7, 8, 9}" by auto
    then have "''0123456789'' ! r \<noteq> CHR ''-''" by auto
    then show ?thesis by (simp add: digitChar_def r_def)
  qed
  show ?case
  proof (cases "n < 10")
    case True
    then show ?thesis by (subst digits.simps) (simp add: d d [symmetric])
  next
    case False
    with "1" show ?thesis by (subst digits.simps) (simp add: d d [symmetric])
  qed
qed

lemma numberToString_inject: "numberToString i = numberToString j \<Longrightarrow> i = j"
proof -
  assume eq: "numberToString i = numberToString j"
  consider "i < 0" "j < 0" | "i < 0" "\<not> j < 0" | "\<not> i < 0" "j < 0" | "\<not> i < 0" "\<not> j < 0"
    by blast
  then show "i = j"
  proof cases
    case 1
    with eq have "nat (- i) = nat (- j)" by (simp add: numberToString_def digits_inject)
    with 1 show ?thesis by simp
  next
    case 2
    with eq have "digits (nat j) = CHR ''-'' # digits (nat (- i))"
      by (simp add: numberToString_def)
    then have "CHR ''-'' \<in> set (digits (nat j))" by simp
    then show ?thesis by (simp add: digits_no_minus)
  next
    case 3
    with eq have "digits (nat i) = CHR ''-'' # digits (nat (- j))"
      by (simp add: numberToString_def)
    then have "CHR ''-'' \<in> set (digits (nat i))" by simp
    then show ?thesis by (simp add: digits_no_minus)
  next
    case 4
    with eq have "nat i = nat j" by (simp add: numberToString_def digits_inject)
    with 4 show ?thesis by simp
  qed
qed

lemma addMarkers_idents:
  "snd (addMarkers pg calls) = map (\<lambda>c. ''marker-'' @ numberToString (fst c)) calls"
  by (induction pg calls rule: addMarkers.induct)
    (simp_all add: handleAddMarker_def Let_def case_prod_beta)

lemma addMarkers_markers:
  "pg_markers (fst (addMarkers pg calls)) =
     pg_markers pg @
     map (\<lambda>c. \<lparr>mk_name = mk_name (snd c), mk_x = mk_x (snd c), mk_y = mk_y (snd c),
               mk_width = mk_width (snd c), mk_height = mk_height (snd c),
               mk_ocrText = mk_ocrText (snd c),
               mk_id = ''marker-'' @ numberToString (fst c)\<rparr>) calls"
  by (induction pg calls rule: addMarkers.induct)
    (simp_all add: handleAddMarker_def Let_def case_prod_beta)

lemma addMarkers_distinct:
  "distinct (snd (addMarkers pg calls)) \<longleftrightarrow> distinct (map fst calls)"
proof -
  have "inj (\<lambda>i. ''marker-'' @ numberToString i)"
    by (rule injI) (simp add: numberToString_inject)
  then have "distinct (map (\<lambda>i. ''marker-'' @ numberToString i) (map fst calls)) \<longleftrightarrow>
      distinct (map fst calls)"
    by (simp only: distinct_map) (auto intro: inj_on_subset)
  then show ?thesis by (simp add: addMarkers_idents comp_def)
qed

text \<open>
  The claim C9 as stated, that the identifiers returned by any sequence of
  calls are pairwise distinct, fails when two calls read the same clock value:
  both return \<open>marker-1700000000000\<close>, and the collection then holds two
  markers with that identifier.
\<close>

theorem same_clock_same_id_counterexample:
  "snd (addMarkers initialPage
          [(1700000000000, exampleData), (1700000000000, exampleData\<lparr>mk_name := ''B''\<rparr>)]) =
     [''marker-1700000000000'', ''marker-1700000000000''] \<and>
   \<not> distinct (snd (addMarkers initialPage
          [(1700000000000, exampleData), (1700000000000, exampleData\<lparr>mk_name := ''B''\<rparr>)])) \<and>
   map mk_id (pg_markers (fst (addMarkers initialPage
          [(1700000000000, exampleData), (1700000000000, exampleData\<lparr>mk_name := ''B''\<rparr>)]))) =
     [''marker-1700000000000'', ''marker-1700000000000'']"
  unfolding addMarkers_idents addMarkers_markers
  using exampleId by (simp add: initialPage_def)

text \<open>
  C9, amended. Every call of \<open>handleAddMarker\<close> returns; it appends exactly one
  marker, with the given data, to the end of the collection and returns that
  marker's identifier, which is \<open>marker-\<close> followed by the clock reading in
  decimal. For every sequence of calls, the identifiers returned are pairwise
  distinct exactly when the clock readings of the calls are pairwise distinct.
\<close>

theorem handleAddMarker_appends_clock_id:
  "handleAddMarker now pg m =
     (pg\<lparr>pg_markers := pg_markers pg @
          [\<lparr>mk_name = mk_name m, mk_x = mk_x m, mk_y = mk_y m, mk_width = mk_width m,
            mk_height = mk_height m, mk_ocrText = mk_ocrText m,
            mk_id = ''marker-'' @ numberToString now\<rparr>]\<rparr>,
      ''marker-'' @ numberToString now) \<and>
   length (pg_markers (fst (handleAddMarker now pg m))) = length (pg_markers pg) + 1 \<and>
   mk_id (last (pg_markers (fst (handleAddMarker now pg m)))) = snd (handleAddMarker now pg m) \<and>
   length (snd (addMarkers pg calls)) = length calls \<and>
   length (pg_markers (fst (addMarkers pg calls))) = length (pg_markers pg) + length calls \<and>
   (distinct (snd (addMarkers pg calls)) \<longleftrightarrow> distinct (map fst calls))"
proof -
  have one: "handleAddMarker now pg m =
     (pg\<lparr>pg_markers := pg_markers pg @
          [\<lparr>mk_name = mk_name m, mk_x = mk_x m, mk_y = mk_y m, mk_width = mk_width m,
            mk_height = mk_height m, mk_ocrText = mk_ocrText m,
            mk_id = ''marker-'' @ numberToString now\<rparr>]\<rparr>,
      ''marker-'' @ numberToString now)"
    by (simp add: handleAddMarker_def Let_def)
  have many: "length (snd (addMarkers pg calls)) = length calls"
    "length (pg_markers (fst (addMarkers pg calls))) = length (pg_markers pg) + length calls"
    by (simp_all add: addMarkers_idents addMarkers_markers)
  from one many addMarkers_distinct [of pg calls] show ?thesis
    by simp
qed

theorem handleAddMarker_appends_clock_id_witness:
  "handleAddMarker 1700000000000 initialPage exampleData =
     (initialPage\<lparr>pg_markers := [exampleMarker\<lparr>mk_ocrText := None\<rparr>]\<rparr>,
      ''marker-1700000000000'') \<and>
   distinct (snd (addMarkers initialPage
       [(1700000000000, exampleData), (1700000000001, exampleData)]))"
proof -
  note inst = handleAddMarker_appends_clock_id [of 1700000000000 initialPage exampleData
      "[(1700000000000, exampleData), (1700000000001, exampleData)]"]
  have clocks: "distinct (map fst [(1700000000000 :: int, exampleData), (1700000000001, exampleData)])"
    by simp
  from inst have "handleAddMarker 1700000000000 initialPage exampleData =
     (initialPage\<lparr>pg_markers := pg_markers initialPage @
          [\<lparr>mk_name = mk_name exampleData, mk_x = mk_x exampleData, mk_y = mk_y exampleData,
            mk_width = mk_width exampleData, mk_height = mk_height exampleData,
            mk_ocrText = mk_ocrText exampleData,
            mk_id = ''marker-'' @ numberToString 1700000000000\<rparr>]\<rparr>,
      ''marker-'' @ numberToString 1700000000000)"
    by (rule conjunct1)
  then have one: "handleAddMarker 1700000000000 initialPage exampleData =
     (initialPage\<lparr>pg_markers := [exampleMarker\<lparr>mk_ocrText := None\<rparr>]\<rparr>,
      ''marker-1700000000000'')"
    by (simp add: exampleClock initialPage_def exampleData_def exampleMarker_def)
  from inst clocks have "distinct (snd (addMarkers initialPage
       [(1700000000000, exampleData), (1700000000001, exampleData)]))"
    by blast
  with one show ?thesis by (rule conjI)
qed

section \<open>Focus and selection\<close>

lemma run_append: "run s (xs @ ys) = run (run s xs) ys"
  by (simp add: run_def)

text \<open>
  The click on a marker hides the selection, in the page and in the viewer,
  whatever the state was: after it the excluded state does not hold.
\<close>

lemma marker_click_hides_selection:
  assumes "markerRendered s ident"
  shows "\<not> selectionAndMarkerFocused (step s (MarkerClick ident))"
  using assms
  by (simp add: selectionAndMarkerFocused_def step_def handleMarkerClick_def pageProps_def
      applyEffects_def handleSelectionChange_def setSelectedMarkerId_def syncSelectionProp_def
      Let_def)

text \<open>
  The press that starts a new selection clears the focus of the page.
\<close>

lemma new_selection_clears_focus:
  assumes "v_image (sys_viewer s)" "\<not> v_spacePressed (sys_viewer s)" "me_altKey e"
    "me_button e = 0" "me_stage e" "me_targetClassName e \<noteq> ''Rect''" "me_pointerPos e = Some p"
  shows "pg_selectedMarkerId (sys_page (step s (MouseDown e))) = None"
  using assms
  by (simp add: step_def handleMouseDown_def pageProps_def applyEffects_def
      handleSelectionChange_def Let_def)

text \<open>
  The start of a drag with Ctrl on a marker that is not focused focuses it and
  touches no selection: a visible selection stays visible.
\<close>

lemma marker_drag_start_focuses:
  assumes "markerRendered s ident" "de_ctrlKey e"
  shows "step s (MarkerDragStart e ident) = s\<lparr>sys_page := (sys_page s)\<lparr>pg_selectedMarkerId := Some ident\<rparr>\<rparr>"
  using assms
  by (simp add: step_def handleMarkerDragStart_def pageProps_def applyEffects_def
      setSelectedMarkerId_def)

text \<open>
  Every event other than the start of a drag on a marker and the choice of a
  marker in the list of the form keeps the exclusion: if no marker is focused
  while a selection is visible before the event, none is after it.
\<close>

lemma step_keeps_exclusion:
  assumes "\<not> selectionAndMarkerFocused s"
    and "\<And>e ident. ev \<noteq> MarkerDragStart e ident"
    and "\<And>ident. ev \<noteq> FormSelectMarker ident"
  shows "\<not> selectionAndMarkerFocused (step s ev)"
proof (cases "rendered s ev")
  case False
  with assms show ?thesis by (simp add: step_def)
next
  case True
  note defs = selectionAndMarkerFocused_def step_def pageProps_def applyEffects_def
    handleSelectionChange_def setSelectedMarkerId_def syncSelectionProp_def
    selectionRendered_def markerRendered_def Let_def
  show ?thesis
  proof (cases ev)
    case (ImageLoaded img)
    with assms True show ?thesis
      by (simp add: defs handleImageUpload_def split: option.splits)
  next
    case (MouseDown e)
    with assms True show ?thesis
      by (auto simp: defs handleMouseDown_def split: option.splits if_splits)
  next
    case (MouseMove e)
    with assms True show ?thesis
      by (auto simp: defs handleMouseMove_def split: option.splits if_splits)
  next
    case (MouseUp e)
    with assms True show ?thesis by (simp add: defs handleMouseUp_def)
  next
    case (Wheel e)
    with assms True show ?thesis by (simp add: defs handleWheel_def)
  next
    case (KeyDown e)
    with assms True show ?thesis by (simp add: defs handleKeyDown_def)
  next
    case (KeyUp e)
    with assms True show ?thesis by (simp add: defs handleKeyUp_def)
  next
    case (MarkerClick ident)
    with assms True show ?thesis by (simp add: defs handleMarkerClick_def)
  next
    case (MarkerDragStart e ident)
    with assms(2) show ?thesis by blast
  next
    case (MarkerDragEnd e ident)
    with assms True show ?thesis
      by (simp add: defs handleMarkerDragEnd_def handleMarkerMove_def handleUpdateMarker_def)
  next
    case (SelectionDragStart e)
    with assms True show ?thesis
      by (simp add: defs handleSelectionDragStart_def handleSelectionDragEnd_def)
  next
    case (SelectionDragEnd e)
    with assms True show ?thesis by (simp add: defs handleSelectionDragEnd_def)
  next
    case (MarkerTransformEnd node ident)
    with assms True show ?thesis
      by (simp add: defs handleMarkerTransformEnd_def handleMarkerMove_def
          handleUpdateMarker_def)
  next
    case (SelectionTransformEnd node)
    with assms True show ?thesis
      by (simp add: defs handleSelectionTransformEnd_def transformerRef_def)
  next
    case (FormSubmit now d)
    with assms True show ?thesis
      by (auto simp: defs handleSubmit_def onSubmit_def handleAddMarker_def
          handleUpdateMarker_def truthy_def split: option.splits)
  next
    case (FormSelectMarker ident)
    with assms(3) show ?thesis by blast
  next
    case FormDeleteMarker
    with assms True show ?thesis
      by (auto simp: defs handleDeleteMarker_def split: option.splits)
  qed
qed

text \<open>
  C1. The state with a visible selection and a focused marker is reached from
  the initial state: an image is loaded, a selection is drawn and saved as a
  marker, a second selection is drawn (which clears the focus), and a drag of
  the marker is started with Ctrl held. The drag start focuses the marker and
  leaves the selection visible, in the page and in the viewer.
\<close>

theorem marker_drag_focus_keeps_selection_visible:
  "run initialSystem focusTrace = step redrawnSystem ctrlDragStart \<and>
   \<not> selectionAndMarkerFocused redrawnSystem \<and>
   selectionAndMarkerFocused (run initialSystem focusTrace) \<and>
   sel_visible (pg_selection (sys_page (run initialSystem focusTrace))) \<and>
   sel_visible (v_imageSelection (sys_viewer (run initialSystem focusTrace))) \<and>
   pg_selectedMarkerId (sys_page (run initialSystem focusTrace)) = Some ''marker-1700000000000''"
proof -
  have "run initialSystem focusTrace =
      run (run (run (run initialSystem
        [ImageLoaded exampleLoad, MouseDown (pointerEvent ''Image'' True 10 10),
         MouseMove (pointerEvent ''Image'' True 60 40)])
        [MouseUp (pointerEvent ''Image'' True 60 40), FormSubmit 1700000000000 exampleForm])
        [MouseDown (pointerEvent ''Image'' True 100 100),
         MouseMove (pointerEvent ''Image'' True 140 120),
         MouseUp (pointerEvent ''Image'' True 140 120)])
        [ctrlDragStart]"
    by (simp add: focusTrace_def run_def)
  also have "\<dots> = run redrawnSystem [ctrlDragStart]"
    by (simp only: drawnSystem_def savedSystem_def redrawnSystem_def)
  finally have "run initialSystem focusTrace = run redrawnSystem [ctrlDragStart]" .
  then have reached: "run initialSystem focusTrace = step redrawnSystem ctrlDragStart"
    by (simp add: run_def)
  have rendered: "markerRendered redrawnSystem ''marker-1700000000000''"
    by (simp add: markerRendered_def redrawnSystem_eq exampleMarker_def)
  have dragged: "step redrawnSystem ctrlDragStart =
      redrawnSystem\<lparr>sys_page :=
        (sys_page redrawnSystem)\<lparr>pg_selectedMarkerId := Some ''marker-1700000000000''\<rparr>\<rparr>"
    unfolding ctrlDragStart_def by (rule marker_drag_start_focuses [OF rendered]) simp
  show ?thesis
    by (simp add: reached dragged) (simp add: selectionAndMarkerFocused_def redrawnSystem_eq)
qed

end
